theory Spec2Isabelle
  imports Complex_Main
begin

section \<open>Shared data model\<close>

text \<open>
  Exceptions of the Python source are values of one datatype. Each constructor carries the
  name of the exception class that the source (or the interpreter, for built-in failures
  such as a missing dictionary key) raises. The class \<open>Exception\<close> is the bare
  \<^verbatim>\<open>raise Exception(message)\<close> of \<^verbatim>\<open>render\<close> and \<^verbatim>\<open>Image.transform\<close>;
  \<open>External\<close> stands for any other exception that a library function or a collaborator
  raises.
\<close>

datatype error =
    Exception string
  | InvalidTileRequest string
  | NoCatalogAvailable
  | NoDataAvailable
  | KeyError string
  | IndexError
  | AttributeError string
  | ZeroDivisionError
  | ValueError string
  | MemoryError
  | CPLE_OutOfMemoryError
  | TypeError string
  | External string

text \<open>
  A coordinate reference system is known to this code through three observations only:
  its string form (the key of \<^verbatim>\<open>EXTENTS\<close>), the comparison \<^verbatim>\<open>==\<close>, and the flag
  \<^verbatim>\<open>is_geographic\<close>. The raster library compares two systems by what they denote, not by
  how they are written: two systems with different string forms can be equal. The
  model therefore carries the denoted system beside the string form, and \<open>crs_eq\<close>
  compares the denoted systems. Of the string forms below only their difference
  matters.
\<close>

datatype crs = CRS (str_crs: string) (crs_system: string) (is_geographic: bool)

definition crs_eq :: "crs \<Rightarrow> crs \<Rightarrow> bool" where
  "crs_eq c c' \<longleftrightarrow> crs_system c = crs_system c'"

definition WEB_MERCATOR_CRS :: crs where
  "WEB_MERCATOR_CRS = CRS ''EPSG:3857'' ''WGS 84 / Pseudo-Mercator'' False"

definition WGS84_CRS :: crs where
  "WGS84_CRS = CRS ''EPSG:4326'' ''WGS 84'' True"

definition EARTH_RADIUS :: real where
  "EARTH_RADIUS = 6378137"

type_synonym extent = "real \<times> real \<times> real \<times> real"

text \<open>
  Modelled from the spec: the named tuple \<^verbatim>\<open>Bounds\<close> is declared in \<^verbatim>\<open>utils.py\<close>, of
  which only the uses are in the files modelled here. It is a rectangle (west, south,
  east, north) paired with its coordinate reference system; the code builds it as
  \<^verbatim>\<open>Bounds(bounds, crs)\<close> and reads the fields \<^verbatim>\<open>bounds\<close> and \<^verbatim>\<open>crs\<close>.
\<close>

record Bounds =
  bounds :: extent
  crs :: crs

section \<open>World extents\<close>

definition degrees :: "real \<Rightarrow> real" where
  "degrees x = x * 180 / pi"

text \<open>The dictionary \<^verbatim>\<open>EXTENTS\<close>, keyed by \<^verbatim>\<open>str(crs)\<close>.\<close>

definition EXTENTS :: "(string \<times> extent) list" where
  "EXTENTS =
    [(str_crs WEB_MERCATOR_CRS,
        (- pi * EARTH_RADIUS, - pi * EARTH_RADIUS, pi * EARTH_RADIUS, pi * EARTH_RADIUS)),
     (str_crs WGS84_CRS,
        (degrees (- pi), degrees (- pi / 2), degrees pi, degrees (pi / 2)))]"

text \<open>\<^verbatim>\<open>get_extent\<close>: a dictionary subscript, which raises \<^verbatim>\<open>KeyError\<close> on a missing key.\<close>

definition get_extent :: "crs \<Rightarrow> error + extent" where
  "get_extent c =
    (case map_of EXTENTS (str_crs c) of
       None \<Rightarrow> Inl (KeyError (str_crs c))
     | Some ext \<Rightarrow> Inr ext)"

section \<open>Arrays\<close>

text \<open>
  A three-dimensional numpy array: its shape and its elements as nested lists, outermost
  axis first. numpy keeps the shape beside the elements (an array of shape \<open>(0, 4, 4)\<close>
  still has four columns), so the model does too. Every array that numpy builds is
  rectangular, which is \<open>wf_ndarray\<close>.
\<close>

record 'a ndarray =
  shape :: "nat \<times> nat \<times> nat"
  elems :: "'a list list list"

definition wf_ndarray :: "'a ndarray \<Rightarrow> bool" where
  "wf_ndarray A =
    (case shape A of (d0, d1, d2) \<Rightarrow>
       length (elems A) = d0
       \<and> list_all (\<lambda>p. length p = d1 \<and> list_all (\<lambda>r. length r = d2) p) (elems A))"

text \<open>\<^verbatim>\<open>m.any()\<close> on a boolean array.\<close>

definition any3 :: "bool ndarray \<Rightarrow> bool" where
  "any3 m = list_ex (list_ex (list_ex (\<lambda>b. b))) (elems m)"

datatype dtype = UInt8 | UInt16 | Int16 | UInt32 | Int32 | Float32 | Float64

text \<open>
  A numpy masked array: element type, values, and the mask, which is either
  \<^verbatim>\<open>nomask\<close> (\<open>None\<close>) or a boolean array of the shape of the values, true where the
  value is invalid. Values are real numbers; the rounding of floating-point arithmetic
  is not modelled.
\<close>

record marray =
  dtype :: dtype
  ma_data :: "real ndarray"
  ma_mask :: "bool ndarray option"

definition wf_marray :: "marray \<Rightarrow> bool" where
  "wf_marray m =
    (wf_ndarray (ma_data m)
     \<and> (case ma_mask m of None \<Rightarrow> True
        | Some k \<Rightarrow> wf_ndarray k \<and> shape k = shape (ma_data m)))"

text \<open>
  Modelled from the spec: the named tuple \<^verbatim>\<open>PixelCollection\<close> is declared in
  \<^verbatim>\<open>utils.py\<close> as well. It is a pixel buffer paired with its Bounds, built as
  \<^verbatim>\<open>PixelCollection(data, bounds)\<close>. The tuple has two further fields, which \<^verbatim>\<open>crop\<close>
  skips and which every constructor call in the files modelled here leaves at their
  defaults.
\<close>

record 'd PixelCollection =
  data :: 'd
  pc_bounds :: Bounds

section \<open>The image transformation\<close>

text \<open>\<^verbatim>\<open>np.ma.transpose(x, [1, 2, 0])\<close>: element \<open>(i, j, k)\<close> of the result is element
  \<open>(k, i, j)\<close> of the argument.\<close>

definition transpose_120 :: "'a ndarray \<Rightarrow> 'a ndarray" where
  "transpose_120 A =
    (case shape A of (d0, d1, d2) \<Rightarrow>
      \<lparr>shape = (d1, d2, d0),
       elems = map (\<lambda>i. map (\<lambda>j. map (\<lambda>k. elems A ! k ! i ! j) [0..<d0]) [0..<d2]) [0..<d1]\<rparr>)"

definition ma_transpose_120 :: "marray \<Rightarrow> marray" where
  "ma_transpose_120 m =
    \<lparr>dtype = dtype m, ma_data = transpose_120 (ma_data m),
     ma_mask = map_option transpose_120 (ma_mask m)\<rparr>"

text \<open>
  \<^verbatim>\<open>x.astype(np.uint8)\<close> on one value: the fraction is dropped (towards zero) and
  the integer wraps modulo 256. For a floating-point value outside the range of the
  target type numpy leaves the result to the platform; the wrap is what it does for
  integers.
\<close>

definition trunc :: "real \<Rightarrow> int" where
  "trunc x = (if 0 \<le> x then \<lfloor>x\<rfloor> else \<lceil>x\<rceil>)"

definition uint8_of :: "real \<Rightarrow> real" where
  "uint8_of x = of_int (trunc x mod 256)"

definition map3 :: "('a \<Rightarrow> 'b) \<Rightarrow> 'a ndarray \<Rightarrow> 'b ndarray" where
  "map3 f A = \<lparr>shape = shape A, elems = map (map (map f)) (elems A)\<rparr>"

definition astype_uint8 :: "marray \<Rightarrow> marray" where
  "astype_uint8 m = \<lparr>dtype = UInt8, ma_data = map3 uint8_of (ma_data m), ma_mask = ma_mask m\<rparr>"

text \<open>
  \<^verbatim>\<open>data *= k\<close> on a masked array works in place: numpy multiplies the values that are
  not masked by \<open>k\<close> and the masked ones by one.
\<close>

definition imul :: "marray \<Rightarrow> real \<Rightarrow> marray" where
  "imul m k =
    (case ma_mask m of
       None \<Rightarrow> m\<lparr>ma_data := map3 (\<lambda>x. x * k) (ma_data m)\<rparr>
     | Some msk \<Rightarrow>
         m\<lparr>ma_data :=
             \<lparr>shape = shape (ma_data m),
              elems = map2 (map2 (map2 (\<lambda>x b. x * (if b then 1 else k))))
                        (elems (ma_data m)) (elems msk)\<rparr>\<rparr>)"

text \<open>\<^verbatim>\<open>data.mask.any()\<close>; the mask \<^verbatim>\<open>nomask\<close> is the scalar false.\<close>

definition mask_any :: "marray \<Rightarrow> bool" where
  "mask_any m =
    (case ma_mask m of None \<Rightarrow> False
     | Some msk \<Rightarrow> any3 msk)"

text \<open>
  \<^verbatim>\<open>np.logical_and.reduce(~mask).astype(np.uint8) * 255\<close>: the reduction runs over the
  first axis (the bands), so the result has one value per pixel, 255 where no band is
  masked and 0 elsewhere.
\<close>

definition valid_alpha :: "bool ndarray \<Rightarrow> real list list" where
  "valid_alpha msk =
    (case shape msk of (d0, d1, d2) \<Rightarrow>
       map (\<lambda>i. map (\<lambda>j. (if list_all (\<lambda>band. \<not> band ! i ! j) (elems msk) then 1 else 0) * 255)
                  [0..<d2]) [0..<d1])"

text \<open>\<^verbatim>\<open>np.full(shape, 255, np.uint8)\<close> for a two-dimensional shape.\<close>

definition full :: "nat \<times> nat \<Rightarrow> real \<Rightarrow> real list list" where
  "full sh v = (case sh of (h, w) \<Rightarrow> replicate h (replicate w v))"

text \<open>
  \<^verbatim>\<open>np.dstack((rgb, a))\<close> for a three-dimensional \<open>rgb\<close> and a two-dimensional \<open>a\<close> of
  the same rows and columns: \<open>a\<close> becomes one more entry along the last axis. The
  result of the numpy function carries no mask.
\<close>

definition dstack :: "marray \<Rightarrow> real list list \<Rightarrow> marray" where
  "dstack rgb a =
    (case shape (ma_data rgb) of (h, w, n) \<Rightarrow>
      \<lparr>dtype = dtype rgb,
       ma_data = \<lparr>shape = (h, w, n + 1),
                  elems = map2 (map2 (\<lambda>px v. px @ [v])) (elems (ma_data rgb)) a\<rparr>,
       ma_mask = None\<rparr>)"

text \<open>
  \<^verbatim>\<open>Image.transform\<close>. The first component of the result is the input buffer
  \<^verbatim>\<open>pixels.data\<close> as the call leaves it (the scaling of normalised data is an in-place
  operation on that very array); the second is the exception raised or the returned
  pair of PixelCollection and format tag. The guard \<^verbatim>\<open>3 > count > 4\<close> is Python's
  chained comparison, \<^verbatim>\<open>3 > count and count > 4\<close>.
\<close>

definition transform ::
  "marray PixelCollection \<Rightarrow> marray \<times> (error + (marray PixelCollection \<times> string))" where
  "transform pixels =
    (let d = data pixels in
     case shape (ma_data d) of (count, _, _) \<Rightarrow>
       if 3 > count \<and> count > 4 then
         (d, Inl (Exception ''Source data must be 3 or 4 bands''))
       else
         let d = (if dtype d = Float32 then imul d 255 else d) in
         if count = 4 then
           (d, Inr (\<lparr>data = ma_transpose_120 (astype_uint8 d), pc_bounds = pc_bounds pixels\<rparr>,
                    ''RGBA''))
         else
           let rgb = ma_transpose_120 (astype_uint8 d);
               ones = (case shape (ma_data rgb) of (h, w, _) \<Rightarrow> full (h, w) 255);
               a = (if mask_any d
                    then (case ma_mask d of Some msk \<Rightarrow> valid_alpha msk | None \<Rightarrow> ones)
                    else ones)
           in (d, Inr (\<lparr>data = dstack rgb a, pc_bounds = pc_bounds pixels\<rparr>, ''RGBA'')))"

text \<open>The buffer after the scaling step of \<^verbatim>\<open>Image.transform\<close> (lines 19 to 21).\<close>

definition scaled :: "marray \<Rightarrow> marray" where
  "scaled d = (if dtype d = Float32 then imul d 255 else d)"

text \<open>Whether band \<open>b\<close> is masked at row \<open>i\<close>, column \<open>j\<close> of a band-major masked array.\<close>

definition masked_at :: "marray \<Rightarrow> nat \<Rightarrow> nat \<Rightarrow> nat \<Rightarrow> bool" where
  "masked_at m b i j = (case ma_mask m of None \<Rightarrow> False | Some k \<Rightarrow> elems k ! b ! i ! j)"

section \<open>Affine transforms and windows\<close>

text \<open>
  The six coefficients of an affine transform, in the order of the \<^verbatim>\<open>Affine\<close>
  constructor: \<open>x' = a x + b y + c\<close>, \<open>y' = d x + e y + f\<close>. Coordinates are real
  numbers; floating-point rounding is not modelled.
\<close>

datatype Affine =
  Affine (aff_a: real) (aff_b: real) (aff_c: real) (aff_d: real) (aff_e: real) (aff_f: real)

definition translation :: "real \<Rightarrow> real \<Rightarrow> Affine" where
  "translation x y = Affine 1 0 x 0 1 y"

definition scale :: "real \<Rightarrow> real \<Rightarrow> Affine" where
  "scale sx sy = Affine sx 0 0 0 sy 0"

definition identity :: Affine where
  "identity = Affine 1 0 0 0 1 0"

fun affine_mul :: "Affine \<Rightarrow> Affine \<Rightarrow> Affine" where
  "affine_mul (Affine a b c d e f) (Affine a' b' c' d' e' f') =
     Affine (a * a' + b * d') (a * b' + b * e') (a * c' + b * f' + c)
            (d * a' + e * d') (d * b' + e * e') (d * c' + e * f' + f)"

fun affine_apply :: "Affine \<Rightarrow> real \<times> real \<Rightarrow> real \<times> real" where
  "affine_apply (Affine a b c d e f) (x, y) = (a * x + b * y + c, d * x + e * y + f)"

text \<open>
  \<^verbatim>\<open>transform.from_bounds(west, south, east, north, width, height)\<close> of the raster
  library: the translation to the top-left corner times the scale by the pixel size.
  The two divisions raise \<^verbatim>\<open>ZeroDivisionError\<close> for a zero width or height.
\<close>

definition from_bounds :: "extent \<Rightarrow> int \<Rightarrow> int \<Rightarrow> error + Affine" where
  "from_bounds ext width height =
    (case ext of (west, south, east, north) \<Rightarrow>
       if width = 0 \<or> height = 0 then Inl ZeroDivisionError
       else Inr (affine_mul (translation west north)
                   (scale ((east - west) / of_int width) ((south - north) / of_int height))))"

text \<open>\<^verbatim>\<open>windows.Window(col_off, row_off, width, height)\<close>.\<close>

datatype Window = Window (col_off: real) (row_off: real) (win_width: real) (win_height: real)

text \<open>
  \<^verbatim>\<open>windows.bounds(window, transform)\<close> of the raster library: the images of the
  window's bottom-left and top-right corners, as (left, bottom, right, top).
\<close>

definition window_bounds :: "Window \<Rightarrow> Affine \<Rightarrow> extent" where
  "window_bounds win t =
    (let row_min = row_off win; row_max = row_min + win_height win;
         col_min = col_off win; col_max = col_min + win_width win;
         (left, bottom) = affine_apply t (col_min, row_max);
         (right, top) = affine_apply t (col_max, row_min)
     in (left, bottom, right, top))"

section \<open>The crop adjuster\<close>

text \<open>
  \<^verbatim>\<open>xs[start:stop]\<close>. An index below zero counts from the end; either index is then
  clamped to the length; the slice is empty when the stop does not exceed the start.
\<close>

definition slice_index :: "int \<Rightarrow> nat \<Rightarrow> int" where
  "slice_index i n = (if i < 0 then max (i + int n) 0 else min i (int n))"

definition slice_len :: "int \<Rightarrow> int \<Rightarrow> nat \<Rightarrow> nat" where
  "slice_len start stop n = nat (slice_index stop n - slice_index start n)"

definition py_slice :: "int \<Rightarrow> int \<Rightarrow> 'a list \<Rightarrow> 'a list" where
  "py_slice start stop xs =
     take (slice_len start stop (length xs)) (drop (nat (slice_index start (length xs))) xs)"

text \<open>\<^verbatim>\<open>s.upper()\<close> on the ASCII letters, and \<^verbatim>\<open>_isimage\<close>.\<close>

definition upper :: "string \<Rightarrow> string" where
  "upper s = map (\<lambda>c. let n = (of_char c :: nat)
                       in if 97 \<le> n \<and> n \<le> 122 then char_of (n - 32) else c) s"

definition isimage :: "string \<Rightarrow> bool" where
  "isimage data_format \<longleftrightarrow> upper data_format \<in> set [''RGB'', ''RGBA'']"

text \<open>
  \<^verbatim>\<open>crop(pixel_collection, data_format, offsets)\<close>. The names \<open>width\<close> and \<open>height\<close>
  are bound as the source binds them: in the image branch to the first and the second
  entry of the shape, in the band-major branch to the third and the second. A masked
  array is sliced in the same way in its values and in its mask, so the element type is
  left open. The offset \<open>top\<close> of the source is written \<open>top'\<close>.
\<close>

definition crop ::
  "'a ndarray PixelCollection \<Rightarrow> string \<Rightarrow> int \<times> int \<times> int \<times> int
     \<Rightarrow> error + 'a ndarray PixelCollection" where
  "crop pixel_collection data_format offsets =
    (let d = data pixel_collection;
         bnds = bounds (pc_bounds pixel_collection);
         data_crs = crs (pc_bounds pixel_collection)
     in case offsets of (left, bottom, right, top') \<Rightarrow>
       if isimage data_format then
         (case shape d of (width, height, n) \<Rightarrow>
            case from_bounds bnds (int width) (int height) of
              Inl err \<Rightarrow> Inl err
            | Inr t \<Rightarrow>
                let d' = \<lparr>shape = (slice_len top' (int height - bottom) width,
                                   slice_len left (int width - right) height, n),
                          elems = map (py_slice left (int width - right))
                                    (py_slice top' (int height - bottom) (elems d))\<rparr>;
                    cropped_window = Window (of_int left) (of_int top') (of_int (int width))
                                       (of_int (int height));
                    cropped_bounds = window_bounds cropped_window t
                in Inr \<lparr>data = d', pc_bounds = \<lparr>bounds = cropped_bounds, crs = data_crs\<rparr>\<rparr>)
       else
         (case shape d of (n, height, width) \<Rightarrow>
            case from_bounds bnds (int width) (int height) of
              Inl err \<Rightarrow> Inl err
            | Inr t \<Rightarrow>
                let d' = \<lparr>shape = (n, slice_len top' (int height - bottom) height,
                                   slice_len left (int width - right) width),
                          elems = map (\<lambda>band. map (py_slice left (int width - right))
                                                 (py_slice top' (int height - bottom) band))
                                    (elems d)\<rparr>;
                    cropped_window = Window (of_int left) (of_int top') (of_int (int width))
                                       (of_int (int height));
                    cropped_bounds = window_bounds cropped_window t
                in Inr \<lparr>data = d', pc_bounds = \<lparr>bounds = cropped_bounds, crs = data_crs\<rparr>\<rparr>))"

section \<open>Resolution and zoom\<close>

definition get_resolution :: "Bounds \<Rightarrow> int \<times> int \<Rightarrow> error + real \<times> real" where
  "get_resolution bnds dims =
    (case dims of (height, width) \<Rightarrow>
       case from_bounds (bounds bnds) width height of
         Inl err \<Rightarrow> Inl err
       | Inr t \<Rightarrow> Inr (\<bar>aff_a t\<bar>, \<bar>aff_e t\<bar>))"

text \<open>
  The great-circle distance of the \<^verbatim>\<open>haversine\<close> package, in kilometres, is a
  parameter: only the division of its result by the pixel counts belongs to this code.
\<close>

type_synonym haversine = "real \<times> real \<Rightarrow> real \<times> real \<Rightarrow> real"

definition get_resolution_in_meters ::
  "haversine \<Rightarrow> Bounds \<Rightarrow> int \<times> int \<Rightarrow> error + real \<times> real" where
  "get_resolution_in_meters haversine bnds dims =
    (if is_geographic (crs bnds) then
       (case (bounds bnds, dims) of ((b0, b1, b2, b3), (height, width)) \<Rightarrow>
          let left = (b0, (b1 + b3) / 2);
              right = (b2, (b1 + b3) / 2);
              top' = ((b0 + b2) / 2, b3);
              bottom = ((b0 + b2) / 2, b1)
          in if width = 0 \<or> height = 0 then Inl ZeroDivisionError
             else Inr (haversine left right * 1000 / of_int width,
                       haversine top' bottom * 1000 / of_int height))
     else get_resolution bnds dims)"

text \<open>
  \<^verbatim>\<open>get_zoom(resolution, op)\<close>: \<^verbatim>\<open>int(op(math.log(c / (resolution * 256)) / math.log(2)))\<close>
  with \<open>c\<close> the circumference \<open>2 pi 6378137\<close>. The division raises for a zero
  resolution and the logarithm for an argument that is not positive.
\<close>

definition get_zoom :: "real \<Rightarrow> (real \<Rightarrow> int) \<Rightarrow> error + int" where
  "get_zoom resolution op =
    (if resolution * 256 = 0 then Inl ZeroDivisionError
     else let x = (2 * pi * 6378137) / (resolution * 256)
          in if x \<le> 0 then Inl (ValueError ''math domain error'')
             else Inr (op (ln x / ln 2)))"

section \<open>Sources and recipes\<close>

datatype ColorInterp =
  CI_undefined | CI_gray | CI_palette | CI_red | CI_green | CI_blue | CI_alpha | CI_other

datatype MaskFlags = MF_all_valid | MF_per_dataset | MF_alpha | MF_nodata

text \<open>What \<^verbatim>\<open>read_window\<close> reads from an opened raster source.\<close>

record Source =
  src_bounds :: extent
  src_crs :: crs
  src_width :: int
  src_height :: int
  src_nodata :: "real option"
  src_dtype :: dtype
  src_colorinterp :: "ColorInterp list"
  src_mask_flag_enums :: "MaskFlags list list"

text \<open>
  The recipe dictionary, restricted to the three keys the code reads. A field is
  \<open>None\<close> when the key is absent. The value stored under \<^verbatim>\<open>nodata\<close> may itself be
  \<^verbatim>\<open>None\<close>; the value stored under \<^verbatim>\<open>dem\<close> is never read, only the presence of the
  key is tested.
\<close>

record Recipes =
  r_resample :: "string option"
  r_nodata :: "real option option"
  r_dem :: "bool option"

section \<open>The transform planner\<close>

text \<open>
  \<^verbatim>\<open>warp.calculate_default_transform\<close> of the raster library is a parameter. It
  receives the source system, the target system, the (scaled) source width and height,
  the source bounds and the optional resolution, and returns the transform with the
  destination width and height, or raises.
\<close>

type_synonym calculator =
  "crs \<Rightarrow> crs \<Rightarrow> int \<Rightarrow> int \<Rightarrow> extent \<Rightarrow> (real \<times> real) option
     \<Rightarrow> error + (Affine \<times> real \<times> real)"

text \<open>
  The planner's variables when planning ends. \<open>Special\<close>: the zoom, the destination
  transform, width and height of the web Mercator special case. \<open>Generic\<close>: the attempt
  counter and scale factor of the retry loop, the destination transform, which is still
  \<^verbatim>\<open>None\<close> when every attempt ran out of memory, and the destination size.
\<close>

datatype Plan =
    Special int Affine real real
  | Generic int int "Affine option" "(real \<times> real) option"

fun dst_transform :: "Plan \<Rightarrow> Affine option" where
  "dst_transform (Special z t w h) = Some t"
| "dst_transform (Generic n k t sz) = t"

text \<open>\<^verbatim>\<open>~t\<close>, the inverse of a transform, as the affine library computes it.\<close>

fun affine_inverse :: "Affine \<Rightarrow> Affine" where
  "affine_inverse (Affine a b c d e f) =
    (let idet = 1 / (a * e - b * d);
         ra = e * idet; rb = - b * idet; rd = - d * idet; re = a * idet
     in Affine ra rb (- c * ra - f * rb) rd re (- c * rd - f * re))"

text \<open>
  The retry loop of the generic case, entered with \<open>attempts = 0\<close> and
  \<open>scale_factor = 1\<close>. One call is one evaluation of the loop condition followed, when
  it holds, by one pass through the body. Floor division by a zero scale factor would
  raise; the loop never produces one.
\<close>

function retry ::
  "calculator \<Rightarrow> Source \<Rightarrow> crs \<Rightarrow> (real \<times> real) option \<Rightarrow> int \<Rightarrow> int \<Rightarrow> error + Plan" where
  "retry calc src dst_crs resolution attempts scale_factor =
    (if scale_factor = 0 then Inl ZeroDivisionError
     else if src_width src div scale_factor > 0 \<and> src_height src div scale_factor > 0 then
       (case calc (src_crs src) dst_crs (src_width src div scale_factor)
               (src_height src div scale_factor) (src_bounds src) resolution of
          Inr (t, w, h) \<Rightarrow>
            let scale' = scale (of_int scale_factor) (of_int scale_factor)
            in Inr (Generic attempts scale_factor
                      (Some (affine_mul t (affine_inverse scale')))
                      (Some (affine_apply scale' (w, h))))
        | Inl err \<Rightarrow>
            if err = MemoryError \<or> err = CPLE_OutOfMemoryError
            then retry calc src dst_crs resolution (attempts + 1) (2 * (attempts + 1))
            else Inl err)
     else Inr (Generic attempts scale_factor None None))"
  by pat_completeness auto
termination
proof (relation "measure (\<lambda>(calc, src, dst_crs, resolution, attempts, scale_factor).
    if scale_factor \<noteq> 0 \<and> src_width src div scale_factor > 0
       \<and> src_height src div scale_factor > 0
    then 1 + nat (\<bar>src_width src\<bar> - attempts) else 0)", goal_cases)
  case 1
  show ?case by simp
next
  case (2 calc src dst_crs resolution attempts scale_factor err)
  have "nat (\<bar>src_width src\<bar> - (attempts + 1)) < nat (\<bar>src_width src\<bar> - attempts)"
    if "0 < src_width src div (2 * (attempts + 1))" "2 * (attempts + 1) \<noteq> 0"
  proof (cases "0 < attempts + 1")
    case True
    with that have "2 * (attempts + 1) \<le> src_width src"
      by (simp add: pos_imp_zdiv_pos_iff)
    with True show ?thesis by simp
  next
    case False
    with that show ?thesis by simp
  qed
  with 2 show ?case by auto
qed

declare retry.simps [simp del]

text \<open>
  The condition of the special case (lines 169 to 176). The recipe is tested for the key
  \<^verbatim>\<open>dem\<close>, and the target system is compared with \<^verbatim>\<open>==\<close>.
\<close>

definition special_case :: "Recipes \<Rightarrow> Bounds \<Rightarrow> real \<times> real \<Rightarrow> real \<times> real \<Rightarrow> bool" where
  "special_case recipes bnds target_resolution source_resolution \<longleftrightarrow>
     r_dem recipes \<noteq> None
     \<and> crs_eq (crs bnds) WEB_MERCATOR_CRS
     \<and> (fst target_resolution > fst source_resolution
        \<and> snd target_resolution > snd source_resolution)"

text \<open>
  Lines 180 to 192 of the special case: the zoom and the destination width and height,
  which are bound before the extent is looked up.
\<close>

definition special_size :: "haversine \<Rightarrow> Source \<Rightarrow> error + int \<times> real \<times> real" where
  "special_size haversine src =
    (case get_resolution_in_meters haversine \<lparr>bounds = src_bounds src, crs = src_crs src\<rparr>
            (src_height src, src_width src) of
       Inl err \<Rightarrow> Inl err
     | Inr res \<Rightarrow>
         case get_zoom (max (fst res) (snd res)) ceiling of
           Inl err \<Rightarrow> Inl err
         | Inr z \<Rightarrow>
             let zoom = min 22 z;
                 dst_width = 2 powi zoom * 256;
                 dst_height = dst_width
             in Inr (zoom, dst_width, dst_height))"

text \<open>
  The planning part of \<^verbatim>\<open>read_window\<close> (up to the end of the retry loop). In the
  special case the extent is looked up under the string form of the target system,
  which raises for a system that equals web Mercator but is written differently. The
  destination size \<open>2 ** zoom * 256\<close> is never zero, so the two divisions by it do not
  raise.
\<close>

definition plan_transform ::
  "haversine \<Rightarrow> calculator \<Rightarrow> Source \<Rightarrow> Bounds \<Rightarrow> int \<times> int \<Rightarrow> Recipes \<Rightarrow> error + Plan" where
  "plan_transform haversine calc src bnds target_shape recipes =
    (case get_resolution_in_meters haversine \<lparr>bounds = src_bounds src, crs = src_crs src\<rparr>
            (src_height src, src_width src) of
       Inl err \<Rightarrow> Inl err
     | Inr source_resolution \<Rightarrow>
     case get_resolution bnds target_shape of
       Inl err \<Rightarrow> Inl err
     | Inr target_resolution \<Rightarrow>
       if special_case recipes bnds target_resolution source_resolution then
         (case special_size haversine src of
            Inl err \<Rightarrow> Inl err
          | Inr (zoom, dst_width, dst_height) \<Rightarrow>
              case get_extent (crs bnds) of
                Inl err \<Rightarrow> Inl err
              | Inr (e0, e1, e2, e3) \<Rightarrow>
                  let resolution = ((e2 - e0) / dst_width, (e3 - e1) / dst_height)
                  in Inr (Special zoom
                            (Affine (fst resolution) 0 e0 0 (- snd resolution) e3)
                            dst_width dst_height))
       else
         let resolution =
               (if fst target_resolution < fst source_resolution
                   \<or> snd target_resolution < snd source_resolution
                then Some target_resolution else None)
         in retry calc src (crs bnds) resolution 0 1)"

section \<open>The windowed reader\<close>

text \<open>The member names of the enumeration \<^verbatim>\<open>Resampling\<close>; a subscript with another
  name raises \<^verbatim>\<open>KeyError\<close>.\<close>

definition Resampling :: "string list" where
  "Resampling = [''nearest'', ''bilinear'', ''cubic'', ''cubic_spline'', ''lanczos'',
                 ''average'', ''mode'', ''gauss'', ''max'', ''min'', ''med'', ''q1'', ''q3'']"

definition resampling_lookup :: "string \<Rightarrow> error + string" where
  "resampling_lookup name = (if name \<in> set Resampling then Inr name else Inl (KeyError name))"

definition is_floating :: "dtype \<Rightarrow> bool" where
  "is_floating dt \<longleftrightarrow> dt = Float32 \<or> dt = Float64"

text \<open>\<^verbatim>\<open>_nodata(dtype)\<close>: the least value of the type (\<^verbatim>\<open>np.finfo(dtype).min\<close> or
  \<^verbatim>\<open>np.iinfo(dtype).min\<close>).\<close>

definition nodata_of :: "dtype \<Rightarrow> real" where
  "nodata_of dt =
    (case dt of
       UInt8 \<Rightarrow> 0 | UInt16 \<Rightarrow> 0 | UInt32 \<Rightarrow> 0
     | Int16 \<Rightarrow> - 32768 | Int32 \<Rightarrow> - 2147483648
     | Float32 \<Rightarrow> - ((2 - 1 / 2 ^ 23) * 2 ^ 127)
     | Float64 \<Rightarrow> - ((2 - 1 / 2 ^ 52) * 2 ^ 1023))"

text \<open>
  Lines 260 to 263: \<^verbatim>\<open>nodata = src.nodata or _nodata(src.meta["dtype"])\<close>, then the
  recipe's value when the recipe has the key. Python's \<^verbatim>\<open>x or y\<close> is \<open>y\<close> when \<open>x\<close> is
  \<^verbatim>\<open>None\<close> and also when \<open>x\<close> is the number zero.
\<close>

definition resolve_nodata :: "Source \<Rightarrow> Recipes \<Rightarrow> real option" where
  "resolve_nodata src recipes =
    (let nodata = (case src_nodata src of
                     None \<Rightarrow> Some (nodata_of (src_dtype src))
                   | Some v \<Rightarrow> if v = 0 then Some (nodata_of (src_dtype src)) else Some v)
     in case r_nodata recipes of None \<Rightarrow> nodata | Some v \<Rightarrow> v)"

text \<open>Lines 268 to 271: the source has a per-dataset mask and no alpha band.\<close>

definition prefer_mask :: "Source \<Rightarrow> bool" where
  "prefer_mask src \<longleftrightarrow>
     list_ex (\<lambda>flags. MF_per_dataset \<in> set flags) (src_mask_flag_enums src)
     \<and> \<not> list_ex (\<lambda>flags. MF_alpha \<in> set flags) (src_mask_flag_enums src)"

text \<open>
  The warped virtual dataset of the raster library is a parameter: a function from the
  keyword arguments of \<^verbatim>\<open>WarpedVRT\<close> to what the code reads from the opened view (band
  count, colour interpretation, nodata value, element type, the window of given bounds,
  and the pixels read for an output shape and a window), or to the exception raised.
\<close>

record VRTArgs =
  v_src :: Source
  v_src_nodata :: "real option"
  v_crs :: crs
  v_width :: int
  v_height :: int
  v_transform :: Affine
  v_resampling :: string
  v_add_alpha :: bool

record VRT =
  vrt_count :: nat
  vrt_colorinterp :: "ColorInterp list"
  vrt_nodata :: "real option"
  vrt_dtype :: dtype
  vrt_window :: "extent \<Rightarrow> Window"
  vrt_read :: "nat \<times> int \<times> int \<Rightarrow> Window \<Rightarrow> error + real ndarray"

type_synonym warper = "VRTArgs \<Rightarrow> error + VRT"

text \<open>
  \<^verbatim>\<open>_mask(data, nodata)\<close>: \<^verbatim>\<open>np.ma.masked_equal\<close>, or for a floating-point array
  \<^verbatim>\<open>np.ma.masked_values\<close>, which compares within numpy's default tolerances. Both
  leave the mask at \<^verbatim>\<open>nomask\<close> when no value is hit.
\<close>

definition mask_values :: "dtype \<Rightarrow> real ndarray \<Rightarrow> real \<Rightarrow> marray" where
  "mask_values dt d v =
    (let hit = (if is_floating dt then (\<lambda>x. \<bar>x - v\<bar> \<le> 1 / 10 ^ 8 + 1 / 10 ^ 5 * \<bar>v\<bar>)
                else (\<lambda>x. x = v));
         m = map3 hit d
     in \<lparr>dtype = dt, ma_data = d, ma_mask = (if any3 m then Some m else None)\<rparr>)"

text \<open>\<^verbatim>\<open>~x\<close> on one value of an integer array; on a floating-point array numpy raises.\<close>

definition invert_value :: "dtype \<Rightarrow> real \<Rightarrow> real" where
  "invert_value dt x =
    (case dt of UInt8 \<Rightarrow> 255 - x | UInt16 \<Rightarrow> 65535 - x | UInt32 \<Rightarrow> 4294967295 - x
     | _ \<Rightarrow> - 1 - x)"

fun index_of :: "'a list \<Rightarrow> 'a \<Rightarrow> nat" where
  "index_of [] y = 0"
| "index_of (x # xs) y = (if x = y then 0 else Suc (index_of xs y))"

text \<open>
  Lines 302 to 305: the band at the position of the alpha entry, inverted, masks each
  of the other bands. The pixels are expected to have \<^verbatim>\<open>vrt.count\<close> bands, as read.
\<close>

definition mask_by_alpha :: "VRT \<Rightarrow> real ndarray \<Rightarrow> error + marray" where
  "mask_by_alpha vrt d =
    (let alpha_idx = index_of (vrt_colorinterp vrt) CI_alpha in
     case shape d of (n, h, w) \<Rightarrow>
       if length (elems d) < vrt_count vrt \<or> length (elems d) \<le> alpha_idx then Inl IndexError
       else if is_floating (vrt_dtype vrt) then Inl (TypeError ''bad operand type for unary ~'')
       else
         let inverted = map (map (\<lambda>x. invert_value (vrt_dtype vrt) x \<noteq> 0)) (elems d ! alpha_idx);
             msk = replicate (vrt_count vrt - 1) inverted;
             bands = map (\<lambda>i. elems d ! i) (filter (\<lambda>i. i \<noteq> alpha_idx) [0..<vrt_count vrt])
         in Inr \<lparr>dtype = vrt_dtype vrt,
                 ma_data = \<lparr>shape = (length bands, h, w), elems = bands\<rparr>,
                 ma_mask = Some \<lparr>shape = (length msk, h, w), elems = msk\<rparr>\<rparr>)"

text \<open>
  \<^verbatim>\<open>read_window(src, bounds, target_shape, recipes)\<close>, with the three library functions
  as parameters. The order of the steps is the order of the source, so that the first
  exception of the source is the error of the model.
\<close>

definition read_window ::
  "haversine \<Rightarrow> calculator \<Rightarrow> warper \<Rightarrow> Source \<Rightarrow> Bounds \<Rightarrow> int \<times> int \<Rightarrow> Recipes
     \<Rightarrow> error + marray PixelCollection" where
  "read_window haversine calc warped_vrt src bnds target_shape recipes =
    (case plan_transform haversine calc src bnds target_shape recipes of
       Inl err \<Rightarrow> Inl err
     | Inr plan \<Rightarrow>
     case (if CI_palette \<in> set (src_colorinterp src)
           then resampling_lookup (case r_resample recipes of None \<Rightarrow> ''nearest'' | Some n \<Rightarrow> n)
           else resampling_lookup (case r_resample recipes of None \<Rightarrow> ''bilinear'' | Some n \<Rightarrow> n)) of
       Inl err \<Rightarrow> Inl err
     | Inr resampling \<Rightarrow>
       let nodata = resolve_nodata src recipes;
           src_nodata' = (if prefer_mask src then None else nodata);
           add_alpha = prefer_mask src
       in case bounds bnds of (w, s, e, n) \<Rightarrow>
          case dst_transform plan of
            None \<Rightarrow> Inl (AttributeError ''NoneType object has no attribute a'')
          | Some t \<Rightarrow>
              let vrt_transform =
                    affine_mul (affine_mul (translation w n) (scale (aff_a t) (aff_e t))) identity
              in if aff_a t = 0 \<or> aff_e t = 0 then Inl ZeroDivisionError
                 else
                   let vrt_width = \<lceil>(e - w) / aff_a t\<rceil>;
                       vrt_height = \<lceil>(s - n) / aff_e t\<rceil>
                   in case warped_vrt \<lparr>v_src = src, v_src_nodata = src_nodata', v_crs = crs bnds,
                                       v_width = vrt_width, v_height = vrt_height,
                                       v_transform = vrt_transform, v_resampling = resampling,
                                       v_add_alpha = add_alpha\<rparr> of
                        Inl err \<Rightarrow> Inl err
                      | Inr vrt \<Rightarrow>
                          let dst_window = vrt_window vrt (bounds bnds) in
                          case vrt_read vrt (vrt_count vrt, target_shape) dst_window of
                            Inl err \<Rightarrow> Inl err
                          | Inr d \<Rightarrow>
                              if CI_alpha \<in> set (vrt_colorinterp vrt) then
                                (case mask_by_alpha vrt d of
                                   Inl err \<Rightarrow> Inl err
                                 | Inr m \<Rightarrow> Inr \<lparr>data = m, pc_bounds = bnds\<rparr>)
                              else
                                (case (nodata, vrt_nodata vrt) of
                                   (Some _, Some v) \<Rightarrow>
                                     Inr \<lparr>data = mask_values (vrt_dtype vrt) d v, pc_bounds = bnds\<rparr>
                                 | _ \<Rightarrow>
                                     Inr \<lparr>data = \<lparr>dtype = vrt_dtype vrt, ma_data = d,
                                                   ma_mask = None\<rparr>,
                                          pc_bounds = bnds\<rparr>))"

section \<open>The render pipeline\<close>

text \<open>
  \<^verbatim>\<open>render\<close> calls five collaborators that are not part of these files: the catalog,
  the compositor \<^verbatim>\<open>mosaic.composite\<close>, the three operations of the transformation and
  the formatter. Each is a parameter that returns a value or raises. A computation
  carries the list of the collaborator calls made so far, so that a result tells which
  stages ran before it.
\<close>

datatype call =
  Call_expand | Call_get_sources | Call_composite | Call_transform | Call_postprocess
  | Call_format

type_synonym 'a computation = "call list \<Rightarrow> call list \<times> (error + 'a)"

definition ret :: "'a \<Rightarrow> 'a computation" where
  "ret x calls = (calls, Inr x)"

definition raise :: "error \<Rightarrow> 'a computation" where
  "raise err calls = (calls, Inl err)"

definition lift :: "error + 'a \<Rightarrow> 'a computation" where
  "lift r calls = (calls, r)"

definition external :: "call \<Rightarrow> error + 'a \<Rightarrow> 'a computation" where
  "external c r calls = (calls @ [c], r)"

definition bind :: "'a computation \<Rightarrow> ('a \<Rightarrow> 'b computation) \<Rightarrow> 'b computation" where
  "bind m f calls =
    (case m calls of
       (calls', Inl err) \<Rightarrow> (calls', Inl err)
     | (calls', Inr x) \<Rightarrow> f x calls')"

type_synonym offsets = "int \<times> int \<times> int \<times> int"

record 'p Transformation =
  t_expand :: "Bounds \<Rightarrow> int \<times> int \<Rightarrow> error + Bounds \<times> (int \<times> int) \<times> offsets"
  t_transform :: "'p \<Rightarrow> error + 'p \<times> string"
  t_postprocess :: "'p \<Rightarrow> string \<Rightarrow> offsets \<Rightarrow> error + 'p"

type_synonym 's catalog = "Bounds \<Rightarrow> real \<times> real \<Rightarrow> error + 's list"

type_synonym ('s, 'p) compositor =
  "'s list \<Rightarrow> Bounds \<Rightarrow> int \<times> int \<Rightarrow> crs \<Rightarrow> bool \<Rightarrow> error + (string \<times> string) list \<times> 'p"

text \<open>
  The response headers: the content type, the labels of the timed stages in order, and
  the sources used. The elapsed times, which come from the clock, and the string layout
  of the entries are left out.
\<close>

record Headers =
  content_type :: string
  server_timing :: "string list"
  sources_used :: "(string \<times> string) list"

text \<open>
  \<^verbatim>\<open>render\<close>. The pixel buffer of a PixelCollection is optional here, since the
  compositor may return one whose data is \<^verbatim>\<open>None\<close>. The source tests
  \<^verbatim>\<open>if transformation:\<close> twice; the model keeps the transformation beside the offsets
  that its \<^verbatim>\<open>expand\<close> returned and tests that pair the second time. When neither a
  source list nor a catalog is left after the first check, \<^verbatim>\<open>list(None)\<close> would raise.
\<close>

definition render ::
  "haversine \<Rightarrow> ('s, 'd option PixelCollection) compositor \<Rightarrow> Bounds \<Rightarrow> int \<times> int \<Rightarrow> crs
     \<Rightarrow> ('d option PixelCollection \<Rightarrow> string \<Rightarrow> error + string \<times> 'b) \<Rightarrow> bool
     \<Rightarrow> 's catalog option \<Rightarrow> 's list option
     \<Rightarrow> 'd option PixelCollection Transformation option
     \<Rightarrow> (Headers \<times> 'b) computation" where
  "render haversine composite bnds shape' target_crs format expand catalog sources transformation =
    bind (lift (get_resolution_in_meters haversine bnds shape')) (\<lambda>resolution_m.
    bind (if sources = None \<and> catalog = None
          then raise (Exception ''Either sources or a catalog must be provided.'')
          else ret ()) (\<lambda>_.
    bind (case transformation of
            None \<Rightarrow> ret (bnds, shape', None)
          | Some tr \<Rightarrow>
              bind (external Call_expand (t_expand tr bnds shape'))
                (\<lambda>(b, sh, offs). ret (b, sh, Some (tr, offs)))) (\<lambda>(bnds, shape', expanded).
    bind (case sources of
            Some srcs \<Rightarrow> ret (srcs, [])
          | None \<Rightarrow>
              (case catalog of
                 Some get_sources \<Rightarrow>
                   bind (external Call_get_sources (get_sources bnds resolution_m))
                     (\<lambda>srcs. ret (srcs, [''Get Sources'']))
               | None \<Rightarrow> raise (TypeError ''NoneType object is not iterable''))) (\<lambda>(srcs, stats).
    bind (if length srcs = 0 then raise NoDataAvailable else ret ()) (\<lambda>_.
    bind (external Call_composite (composite srcs bnds shape' target_crs expand)) (\<lambda>(used, pixels).
    bind (if data pixels = None then raise NoDataAvailable else ret ()) (\<lambda>_.
    bind (case expanded of
            None \<Rightarrow> ret (pixels, ''raw'', stats @ [''Composite''])
          | Some (tr, offs) \<Rightarrow>
              bind (external Call_transform (t_transform tr pixels)) (\<lambda>(pixels, data_format).
              bind (external Call_postprocess (t_postprocess tr pixels data_format offs))
                (\<lambda>pixels. ret (pixels, data_format,
                                 stats @ [''Composite'', ''Transform'', ''Post-process'']))))
      (\<lambda>(pixels, data_format, stats).
    bind (external Call_format (format pixels data_format)) (\<lambda>(ctype, formatted).
    ret (\<lparr>content_type = ctype, server_timing = stats @ [''Format''], sources_used = used\<rparr>,
         formatted))))))))))"

section \<open>Buffers, views and stages\<close>

text \<open>
  To say which memory a stage writes, the arrays are given a place. A store holds the
  buffers, each a masked array that owns its values and its mask, and the
  PixelCollection objects made so far; both are addressed by their position. The data
  of a PixelCollection is a view: a buffer and a box in it, the offset and the extent
  along each of the three axes. A newly built array is the view of the whole of a new
  buffer; a numpy slice is a view of the same buffer with a smaller box.
\<close>

type_synonym box = "(nat \<times> nat) \<times> (nat \<times> nat) \<times> (nat \<times> nat)"

definition in_box :: "box \<Rightarrow> nat \<Rightarrow> nat \<Rightarrow> nat \<Rightarrow> bool" where
  "in_box bx a b c =
    (case bx of ((o0, n0), (o1, n1), (o2, n2)) \<Rightarrow>
       o0 \<le> a \<and> a < o0 + n0 \<and> o1 \<le> b \<and> b < o1 + n1 \<and> o2 \<le> c \<and> c < o2 + n2)"

definition box_read :: "box \<Rightarrow> 'a ndarray \<Rightarrow> 'a ndarray" where
  "box_read bx A =
    (case bx of ((o0, n0), (o1, n1), (o2, n2)) \<Rightarrow>
       \<lparr>shape = (n0, n1, n2),
        elems = map (\<lambda>a. map (\<lambda>b. map (\<lambda>c. elems A ! (o0 + a) ! (o1 + b) ! (o2 + c)) [0..<n2])
                               [0..<n1]) [0..<n0]\<rparr>)"

definition whole :: "'a ndarray \<Rightarrow> box" where
  "whole A = (case shape A of (d0, d1, d2) \<Rightarrow> ((0, d0), (0, d1), (0, d2)))"

record view =
  view_buf :: nat
  view_box :: box

record store =
  buffers :: "marray list"
  collections :: "view PixelCollection list"

text \<open>The masked array that a view shows, and the views that a store can hold.\<close>

definition view_read :: "store \<Rightarrow> view \<Rightarrow> marray" where
  "view_read st v =
    (let m = buffers st ! view_buf v
     in \<lparr>dtype = dtype m, ma_data = box_read (view_box v) (ma_data m),
         ma_mask = map_option (box_read (view_box v)) (ma_mask m)\<rparr>)"

definition valid_view :: "store \<Rightarrow> view \<Rightarrow> bool" where
  "valid_view st v \<longleftrightarrow>
     view_buf v < length (buffers st)
     \<and> wf_marray (buffers st ! view_buf v)
     \<and> (case (view_box v, shape (ma_data (buffers st ! view_buf v))) of
           (((o0, n0), (o1, n1), (o2, n2)), (d0, d1, d2)) \<Rightarrow>
             o0 + n0 \<le> d0 \<and> o1 + n1 \<le> d1 \<and> o2 + n2 \<le> d2)"

text \<open>
  \<^verbatim>\<open>data *= k\<close> on a view: the values of the buffer that lie in the box and are not
  masked are multiplied by \<open>k\<close> where they are.
\<close>

definition view_imul :: "store \<Rightarrow> view \<Rightarrow> real \<Rightarrow> store" where
  "view_imul st v k =
    (let m = buffers st ! view_buf v in
     case shape (ma_data m) of (d0, d1, d2) \<Rightarrow>
       st\<lparr>buffers := (buffers st)[view_buf v :=
            m\<lparr>ma_data :=
                \<lparr>shape = (d0, d1, d2),
                 elems = map (\<lambda>a. map (\<lambda>b. map (\<lambda>c.
                           elems (ma_data m) ! a ! b ! c
                             * (if in_box (view_box v) a b c \<and> \<not> masked_at m a b c
                                then k else 1))
                         [0..<d2]) [0..<d1]) [0..<d0]\<rparr>\<rparr>]\<rparr>)"

text \<open>A new PixelCollection object, and a new buffer with the view of the whole of it.\<close>

definition new_collection :: "store \<Rightarrow> view PixelCollection \<Rightarrow> store \<times> nat" where
  "new_collection st pc = (st\<lparr>collections := collections st @ [pc]\<rparr>, length (collections st))"

definition new_buffer :: "store \<Rightarrow> marray \<Rightarrow> store \<times> view" where
  "new_buffer st m =
    (st\<lparr>buffers := buffers st @ [m]\<rparr>,
     \<lparr>view_buf = length (buffers st), view_box = whole (ma_data m)\<rparr>)"

text \<open>
  \<^verbatim>\<open>Image.transform\<close> on the store. The content of the result is what \<open>transform\<close>
  computes from the content of the input view. The scaling of 32-bit floats is written
  through the view into the buffer of the input. \<^verbatim>\<open>astype\<close> returns a copy, so the
  transposed and stacked result lives in a new buffer, and
  \<^verbatim>\<open>PixelCollection(..., pixels.bounds)\<close> makes a new PixelCollection for it.
\<close>

definition transform_st :: "store \<Rightarrow> nat \<Rightarrow> store \<times> (error + nat \<times> string)" where
  "transform_st st c =
    (let pixels = collections st ! c;
         v = data pixels;
         d = view_read st v
     in case snd (transform \<lparr>data = d, pc_bounds = pc_bounds pixels\<rparr>) of
          Inl err \<Rightarrow> (st, Inl err)
        | Inr (q, tag) \<Rightarrow>
            let st = (if dtype d = Float32 then view_imul st v 255 else st);
                (st, v') = new_buffer st (data q);
                (st, c') = new_collection st \<lparr>data = v', pc_bounds = pc_bounds q\<rparr>
            in (st, Inr (c', tag)))"

text \<open>
  \<^verbatim>\<open>crop\<close> on the store. The two slices of \<open>crop\<close>, with the same start and stop
  expressions, select a smaller box of the same buffer; the error and the bounds are
  those of \<open>crop\<close> on the content of the view. No buffer is written or made; the slice
  goes into a new PixelCollection.
\<close>

definition crop_box :: "box \<Rightarrow> string \<Rightarrow> offsets \<Rightarrow> box" where
  "crop_box bx data_format offs =
    (case (bx, offs) of (((o0, n0), (o1, n1), (o2, n2)), (left, bottom, right, top')) \<Rightarrow>
       if isimage data_format then
         (let width = n0; height = n1
          in ((o0 + nat (slice_index top' n0), slice_len top' (int height - bottom) n0),
              (o1 + nat (slice_index left n1), slice_len left (int width - right) n1),
              (o2, n2)))
       else
         (let height = n1; width = n2
          in ((o0, n0),
              (o1 + nat (slice_index top' n1), slice_len top' (int height - bottom) n1),
              (o2 + nat (slice_index left n2), slice_len left (int width - right) n2))))"

definition crop_st :: "store \<Rightarrow> nat \<Rightarrow> string \<Rightarrow> offsets \<Rightarrow> store \<times> (error + nat)" where
  "crop_st st c data_format offs =
    (let pixel_collection = collections st ! c;
         v = data pixel_collection;
         d = view_read st v
     in case crop \<lparr>data = ma_data d, pc_bounds = pc_bounds pixel_collection\<rparr> data_format offs of
          Inl err \<Rightarrow> (st, Inl err)
        | Inr q \<Rightarrow>
            let (st, c') = new_collection st
                  \<lparr>data = \<lparr>view_buf = view_buf v, view_box = crop_box (view_box v) data_format offs\<rparr>,
                   pc_bounds = pc_bounds q\<rparr>
            in (st, Inr c'))"

text \<open>
  The stages of these files that receive a PixelCollection. (\<^verbatim>\<open>read_window\<close> and
  \<^verbatim>\<open>render\<close> receive none: the first builds one from a source, the second hands the
  buffers to its collaborators.)
\<close>

datatype stage = Stage_crop string offsets | Stage_transform

fun run_stage :: "stage \<Rightarrow> store \<Rightarrow> nat \<Rightarrow> store \<times> (error + nat)" where
  "run_stage (Stage_crop data_format offs) st c = crop_st st c data_format offs"
| "run_stage Stage_transform st c =
     (case transform_st st c of
        (st', Inl err) \<Rightarrow> (st', Inl err)
      | (st', Inr (c', tag)) \<Rightarrow> (st', Inr c'))"

section \<open>Example buffers\<close>

text \<open>Band-major buffers over a one-pixel-high strip, used to run the functions above.\<close>

definition strip_bounds :: Bounds where
  "strip_bounds = \<lparr>bounds = (0, 0, 2, 1), crs = WEB_MERCATOR_CRS\<rparr>"

definition one_band_pixels :: "marray PixelCollection" where
  "one_band_pixels =
    \<lparr>data = \<lparr>dtype = UInt8, ma_data = \<lparr>shape = (1, 1, 1), elems = [[[7]]]\<rparr>, ma_mask = None\<rparr>,
     pc_bounds = strip_bounds\<rparr>"

definition float_pixels :: "marray PixelCollection" where
  "float_pixels =
    \<lparr>data = \<lparr>dtype = Float32,
             ma_data = \<lparr>shape = (4, 1, 1), elems = [[[1]], [[1]], [[1]], [[1]]]\<rparr>,
             ma_mask = None\<rparr>,
     pc_bounds = strip_bounds\<rparr>"

definition byte_pixels :: "marray PixelCollection" where
  "byte_pixels =
    \<lparr>data = \<lparr>dtype = UInt8,
             ma_data = \<lparr>shape = (4, 1, 1), elems = [[[1]], [[2]], [[3]], [[4]]]\<rparr>,
             ma_mask = None\<rparr>,
     pc_bounds = strip_bounds\<rparr>"

definition rgb_pixels :: "marray PixelCollection" where
  "rgb_pixels =
    \<lparr>data = \<lparr>dtype = UInt8,
             ma_data = \<lparr>shape = (3, 1, 2), elems = [[[1, 2]], [[3, 4]], [[5, 6]]]\<rparr>,
             ma_mask = Some \<lparr>shape = (3, 1, 2),
                             elems = [[[False, False]], [[False, True]], [[False, False]]]\<rparr>\<rparr>,
     pc_bounds = strip_bounds\<rparr>"

text \<open>Stores that hold one buffer and one PixelCollection showing the whole of it.\<close>

definition float_store :: store where
  "float_store =
    \<lparr>buffers = [data float_pixels],
     collections = [\<lparr>data = \<lparr>view_buf = 0, view_box = ((0, 4), (0, 1), (0, 1))\<rparr>,
                     pc_bounds = strip_bounds\<rparr>]\<rparr>"

definition byte_store :: store where
  "byte_store =
    \<lparr>buffers = [data byte_pixels],
     collections = [\<lparr>data = \<lparr>view_buf = 0, view_box = ((0, 4), (0, 1), (0, 1))\<rparr>,
                     pc_bounds = strip_bounds\<rparr>]\<rparr>"

text \<open>
  A band-major buffer of one band, two rows and two columns over the square from (0, 0)
  to (2, 2), and a pixel-interleaved image of one row, two columns and four bands over
  the rectangle from (0, 0) to (2, 1).
\<close>

definition square_raw :: "nat ndarray PixelCollection" where
  "square_raw = \<lparr>data = \<lparr>shape = (1, 2, 2), elems = [[[1, 2], [3, 4]]]\<rparr>,
                 pc_bounds = \<lparr>bounds = (0, 0, 2, 2), crs = WEB_MERCATOR_CRS\<rparr>\<rparr>"

definition wide_image :: "nat ndarray PixelCollection" where
  "wide_image = \<lparr>data = \<lparr>shape = (1, 2, 4), elems = [[[1, 2, 3, 4], [5, 6, 7, 8]]]\<rparr>,
                 pc_bounds = \<lparr>bounds = (0, 0, 2, 1), crs = WEB_MERCATOR_CRS\<rparr>\<rparr>"

text \<open>Stand-ins for the library functions, and inputs for the planner and the reader.\<close>

definition no_haversine :: haversine where
  "no_haversine p q = 0"

definition no_memory :: calculator where
  "no_memory from_crs to_crs width height bnds resolution = Inl MemoryError"

definition grid_calculator :: calculator where
  "grid_calculator from_crs to_crs width height ext resolution =
     (case ext of (west, south, east, north) \<Rightarrow>
        Inr (Affine 1 0 west 0 (- 1) north, of_int width, of_int height))"

definition no_vrt :: warper where
  "no_vrt args = Inl (External ''not opened'')"

definition two_pixel_vrt :: warper where
  "two_pixel_vrt args =
     Inr \<lparr>vrt_count = 1, vrt_colorinterp = [CI_gray], vrt_nodata = v_src_nodata args,
          vrt_dtype = src_dtype (v_src args),
          vrt_window = (\<lambda>ext. Window 0 0 2 1),
          vrt_read = (\<lambda>out_shape win. Inr \<lparr>shape = (1, 1, 2), elems = [[[0, - 32768]]]\<rparr>)\<rparr>"

definition mercator_source :: Source where
  "mercator_source =
    \<lparr>src_bounds = (0, 0, 256, 256), src_crs = WEB_MERCATOR_CRS, src_width = 256, src_height = 256,
     src_nodata = None, src_dtype = Int16, src_colorinterp = [CI_gray],
     src_mask_flag_enums = [[MF_all_valid]]\<rparr>"

definition tiny_source :: Source where
  "tiny_source =
    \<lparr>src_bounds = (0, 0, 3, 3), src_crs = WEB_MERCATOR_CRS, src_width = 3, src_height = 3,
     src_nodata = None, src_dtype = Int16, src_colorinterp = [CI_gray],
     src_mask_flag_enums = [[MF_all_valid]]\<rparr>"

definition int16_source :: Source where
  "int16_source =
    \<lparr>src_bounds = (0, 0, 2, 1), src_crs = WEB_MERCATOR_CRS, src_width = 2, src_height = 1,
     src_nodata = Some 0, src_dtype = Int16, src_colorinterp = [CI_gray],
     src_mask_flag_enums = [[MF_nodata]]\<rparr>"

definition coarse_target :: Bounds where
  "coarse_target = \<lparr>bounds = (0, 0, 1024, 1024), crs = WEB_MERCATOR_CRS\<rparr>"

definition google_target :: Bounds where
  "google_target =
    \<lparr>bounds = (0, 0, 1024, 1024),
     crs = CRS ''EPSG:900913'' ''WGS 84 / Pseudo-Mercator'' False\<rparr>"

definition fine_target :: Bounds where
  "fine_target = \<lparr>bounds = (0, 0, 256, 256), crs = WEB_MERCATOR_CRS\<rparr>"

definition dem_recipe :: Recipes where
  "dem_recipe = \<lparr>r_resample = None, r_nodata = None, r_dem = Some True\<rparr>"

definition no_recipe :: Recipes where
  "no_recipe = \<lparr>r_resample = None, r_nodata = None, r_dem = None\<rparr>"

definition empty_catalog :: "nat catalog" where
  "empty_catalog bnds resolution_m = Inr []"

definition no_compositor :: "(nat, real option PixelCollection) compositor" where
  "no_compositor srcs bnds sh target_crs expand = Inl (External ''compositor called'')"

definition no_formatter :: "real option PixelCollection \<Rightarrow> string \<Rightarrow> error + string \<times> string" where
  "no_formatter pixels data_format = Inl (External ''formatter called'')"

definition margin_transformation :: "real option PixelCollection Transformation" where
  "margin_transformation =
    \<lparr>t_expand = (\<lambda>bnds sh. Inr (bnds, sh, (0, 0, 0, 0))),
     t_transform = (\<lambda>pixels. Inl (External ''transform called'')),
     t_postprocess = (\<lambda>pixels data_format offs. Inl (External ''postprocess called''))\<rparr>"

section \<open>Properties\<close>

lemma degrees_pi: "degrees pi = 180" "degrees (- pi) = - 180"
  "degrees (pi / 2) = 90" "degrees (- (pi / 2)) = - 90"
  by (simp_all add: degrees_def)

text \<open>
  Claim C8. A coordinate reference system whose string form is not a key of the world
  extent table makes \<open>get_extent\<close> fail with the lookup error (the error the specification
  calls UnsupportedCRS is the \<^verbatim>\<open>KeyError\<close> of the dictionary subscript); every key of
  the table yields the extent stored for it, and the table holds the full-world extents
  of web Mercator (plus and minus \<open>pi\<close> times the earth radius on both axes) and of the
  geographic degree system (longitude -180 to 180, latitude -90 to 90).
\<close>

theorem get_extent_lookup:
  "(str_crs c \<notin> fst ` set EXTENTS \<longrightarrow> get_extent c = Inl (KeyError (str_crs c)))
   \<and> (\<forall>ext. map_of EXTENTS (str_crs c) = Some ext \<longrightarrow> get_extent c = Inr ext)
   \<and> get_extent WEB_MERCATOR_CRS =
        Inr (- pi * EARTH_RADIUS, - pi * EARTH_RADIUS, pi * EARTH_RADIUS, pi * EARTH_RADIUS)
   \<and> get_extent WGS84_CRS = Inr (- 180, - 90, 180, 90)"
proof -
  have absent: "str_crs c \<notin> fst ` set EXTENTS \<Longrightarrow> map_of EXTENTS (str_crs c) = None"
    by (simp add: map_of_eq_None_iff)
  have wm: "map_of EXTENTS (str_crs WEB_MERCATOR_CRS) =
      Some (- pi * EARTH_RADIUS, - pi * EARTH_RADIUS, pi * EARTH_RADIUS, pi * EARTH_RADIUS)"
    by (simp add: EXTENTS_def)
  have wgs: "map_of EXTENTS (str_crs WGS84_CRS) = Some (- 180, - 90, 180, 90)"
    by (simp add: EXTENTS_def WEB_MERCATOR_CRS_def WGS84_CRS_def degrees_pi)
  show ?thesis
    using absent by (simp add: get_extent_def wm wgs)
qed

theorem get_extent_lookup_witness:
  "str_crs (CRS ''EPSG:32610'' ''WGS 84 / UTM zone 10N'' False) \<notin> fst ` set EXTENTS
   \<and> get_extent (CRS ''EPSG:32610'' ''WGS 84 / UTM zone 10N'' False) = Inl (KeyError ''EPSG:32610'')
   \<and> map_of EXTENTS (str_crs WGS84_CRS) = Some (- 180, - 90, 180, 90)
   \<and> get_extent WGS84_CRS = Inr (- 180, - 90, 180, 90)"
proof -
  have a: "str_crs (CRS ''EPSG:32610'' ''WGS 84 / UTM zone 10N'' False) \<notin> fst ` set EXTENTS"
    by (simp add: EXTENTS_def WEB_MERCATOR_CRS_def WGS84_CRS_def)
  have b: "map_of EXTENTS (str_crs WGS84_CRS) = Some (- 180, - 90, 180, 90)"
    by (simp add: EXTENTS_def WEB_MERCATOR_CRS_def WGS84_CRS_def degrees_pi)
  show ?thesis
    using a b get_extent_lookup [of "CRS ''EPSG:32610'' ''WGS 84 / UTM zone 10N'' False"] by simp
qed

subsection \<open>The image transformation\<close>


lemma wf_ndarray_iff:
  "wf_ndarray A \<longleftrightarrow>
     length (elems A) = fst (shape A)
     \<and> (\<forall>k < fst (shape A). length (elems A ! k) = fst (snd (shape A))
           \<and> (\<forall>i < fst (snd (shape A)). length (elems A ! k ! i) = snd (snd (shape A))))"
  by (auto simp: wf_ndarray_def list_all_length split: prod.splits)

lemma shape_transpose_120:
  "shape A = (d0, d1, d2) \<Longrightarrow> shape (transpose_120 A) = (d1, d2, d0)"
  by (simp add: transpose_120_def)

lemma wf_transpose_120: "wf_ndarray (transpose_120 A)"
  by (simp add: wf_ndarray_iff transpose_120_def split: prod.splits)

lemma nth_transpose_120:
  "shape A = (d0, d1, d2) \<Longrightarrow> i < d1 \<Longrightarrow> j < d2 \<Longrightarrow> k < d0 \<Longrightarrow>
   elems (transpose_120 A) ! i ! j ! k = elems A ! k ! i ! j"
  by (simp add: transpose_120_def)

lemma imul_shape: "wf_marray m \<Longrightarrow> shape (ma_data (imul m k)) = shape (ma_data m)"
  by (simp add: imul_def map3_def split: option.splits)

lemma imul_mask: "ma_mask (imul m k) = ma_mask m"
  by (simp add: imul_def split: option.splits)

lemma any3_iff:
  assumes "wf_ndarray k" "shape k = (d0, d1, d2)"
  shows "any3 k \<longleftrightarrow> (\<exists>b<d0. \<exists>i<d1. \<exists>j<d2. elems k ! b ! i ! j)"
proof -
  have len: "length (elems k) = d0"
    and rows: "\<And>b. b < d0 \<Longrightarrow> length (elems k ! b) = d1"
    and cols: "\<And>b i. b < d0 \<Longrightarrow> i < d1 \<Longrightarrow> length (elems k ! b ! i) = d2"
    using assms by (simp_all add: wf_ndarray_iff)
  have "any3 k
        \<longleftrightarrow> (\<exists>b<d0. \<exists>i<length (elems k ! b). \<exists>j<length (elems k ! b ! i). elems k ! b ! i ! j)"
    by (simp add: any3_def list_ex_length len)
  also have "\<dots> \<longleftrightarrow> (\<exists>b<d0. \<exists>i<d1. \<exists>j<d2. elems k ! b ! i ! j)"
    using rows cols by (metis (no_types, lifting))
  finally show ?thesis .
qed

lemma mask_any_iff:
  "wf_marray m \<Longrightarrow> shape (ma_data m) = (d0, d1, d2) \<Longrightarrow>
   mask_any m \<longleftrightarrow> (\<exists>b<d0. \<exists>i<d1. \<exists>j<d2. masked_at m b i j)"
  by (cases "ma_mask m")
     (simp_all add: mask_any_def masked_at_def wf_marray_def any3_iff)

lemma valid_alpha_nth:
  "wf_ndarray msk \<Longrightarrow> shape msk = (d0, d1, d2) \<Longrightarrow> i < d1 \<Longrightarrow> j < d2 \<Longrightarrow>
   valid_alpha msk ! i ! j = (if \<exists>b<d0. elems msk ! b ! i ! j then 0 else 255)"
  by (auto simp: valid_alpha_def wf_ndarray_iff list_all_length)

lemma valid_alpha_dims:
  "shape msk = (d0, d1, d2) \<Longrightarrow> length (valid_alpha msk) = d1 \<and> (\<forall>i<d1. length (valid_alpha msk ! i) = d2)"
  by (auto simp: valid_alpha_def)

lemma full_dims: "length (full (h, w) v) = h \<and> (\<forall>i<h. length (full (h, w) v ! i) = w)"
  by (simp add: full_def)

lemma full_nth: "i < h \<Longrightarrow> j < w \<Longrightarrow> full (h, w) v ! i ! j = v"
  by (simp add: full_def)

lemma dstack_props:
  assumes "wf_ndarray (ma_data rgb)" "shape (ma_data rgb) = (h, w, n)"
    and "length a = h" "\<forall>i<h. length (a ! i) = w"
  shows "shape (ma_data (dstack rgb a)) = (h, w, n + 1)"
    and "wf_ndarray (ma_data (dstack rgb a))"
    and "i < h \<Longrightarrow> j < w \<Longrightarrow> elems (ma_data (dstack rgb a)) ! i ! j ! n = a ! i ! j"
  using assms
  by (auto simp: dstack_def wf_ndarray_iff nth_append)


lemma transform_never_raises: "snd (transform p) \<noteq> Inl e"
  by (auto simp: transform_def Let_def split: prod.splits)

lemma scaled_shape: "wf_marray d \<Longrightarrow> shape (ma_data (scaled d)) = shape (ma_data d)"
  by (simp add: scaled_def imul_shape)

lemma scaled_mask: "ma_mask (scaled d) = ma_mask d"
  by (simp add: scaled_def imul_mask)

lemma mask_any_scaled: "mask_any (scaled d) = mask_any d"
  by (simp add: mask_any_def scaled_mask)

lemma transform_four:
  assumes "shape (ma_data (data p)) = (4, h, w)"
  shows "transform p =
    (scaled (data p),
     Inr (\<lparr>data = ma_transpose_120 (astype_uint8 (scaled (data p))), pc_bounds = pc_bounds p\<rparr>,
          ''RGBA''))"
  using assms by (simp add: transform_def Let_def scaled_def)

lemma rgb_shape:
  assumes "wf_marray d" "shape (ma_data d) = (c, h, w)"
  shows "shape (ma_data (ma_transpose_120 (astype_uint8 (scaled d)))) = (h, w, c)"
    and "wf_ndarray (ma_data (ma_transpose_120 (astype_uint8 (scaled d))))"
  using assms
  by (simp_all add: ma_transpose_120_def astype_uint8_def map3_def wf_transpose_120
      shape_transpose_120 scaled_shape)

lemma transform_three:
  assumes "wf_marray (data p)" "shape (ma_data (data p)) = (3, h, w)"
  shows "transform p =
    (scaled (data p),
     Inr (\<lparr>data = dstack (ma_transpose_120 (astype_uint8 (scaled (data p))))
                    (if mask_any (data p)
                     then (case ma_mask (data p) of Some msk \<Rightarrow> valid_alpha msk
                           | None \<Rightarrow> full (h, w) 255)
                     else full (h, w) 255),
            pc_bounds = pc_bounds p\<rparr>,
          ''RGBA''))"
proof -
  have m: "mask_any (scaled (data p)) = mask_any (data p)"
    by (rule mask_any_scaled)
  have r: "shape (ma_data (ma_transpose_120 (astype_uint8 (scaled (data p))))) = (h, w, 3)"
    by (rule rgb_shape(1) [OF assms])
  show ?thesis
    using assms(2) m r
    by (cases "ma_mask (data p)")
       (simp_all add: transform_def Let_def scaled_def [symmetric] scaled_mask)
qed

lemma imul_nth:
  assumes wf: "wf_marray m" and sh: "shape (ma_data m) = (c, h, w)"
    and kij: "k < c" "i < h" "j < w"
  shows "elems (ma_data (imul m f)) ! k ! i ! j =
     elems (ma_data m) ! k ! i ! j * (if masked_at m k i j then 1 else f)"
proof (cases "ma_mask m")
  case None
  with wf sh kij show ?thesis
    by (simp add: imul_def map3_def masked_at_def wf_marray_def wf_ndarray_iff)
next
  case (Some msk)
  with wf sh have a: "wf_ndarray (ma_data m)" and b: "wf_ndarray msk" "shape msk = (c, h, w)"
    by (simp_all add: wf_marray_def)
  from a sh kij have la: "length (elems (ma_data m)) = c" "length (elems (ma_data m) ! k) = h"
      "length (elems (ma_data m) ! k ! i) = w"
    by (simp_all add: wf_ndarray_iff)
  from b kij have lb: "length (elems msk) = c" "length (elems msk ! k) = h"
      "length (elems msk ! k ! i) = w"
    by (simp_all add: wf_ndarray_iff)
  show ?thesis
    using Some kij la lb by (simp add: imul_def masked_at_def)
qed

lemma scaled_nth:
  assumes "wf_marray m" "shape (ma_data m) = (c, h, w)" "k < c" "i < h" "j < w"
  shows "elems (ma_data (scaled m)) ! k ! i ! j =
     (if dtype m = Float32 \<and> \<not> masked_at m k i j
      then elems (ma_data m) ! k ! i ! j * 255 else elems (ma_data m) ! k ! i ! j)"
  using imul_nth [OF assms, of 255] by (simp add: scaled_def)

lemma wf_scaled: "wf_marray m \<Longrightarrow> wf_ndarray (ma_data (scaled m))"
  by (cases "ma_mask m")
     (auto simp: scaled_def imul_def map3_def wf_marray_def wf_ndarray_iff)

lemma rgb_nth:
  assumes wf: "wf_marray d" and sh: "shape (ma_data d) = (c, h, w)"
    and kij: "i < h" "j < w" "k < c"
  shows "elems (ma_data (ma_transpose_120 (astype_uint8 (scaled d)))) ! i ! j ! k =
     uint8_of (if dtype d = Float32 \<and> \<not> masked_at d k i j
               then elems (ma_data d) ! k ! i ! j * 255 else elems (ma_data d) ! k ! i ! j)"
proof -
  have s: "shape (ma_data (scaled d)) = (c, h, w)"
    using wf sh by (simp add: scaled_shape)
  have w: "wf_ndarray (ma_data (scaled d))" by (rule wf_scaled [OF wf])
  from w s kij have l: "length (elems (ma_data (scaled d))) = c"
      "length (elems (ma_data (scaled d)) ! k) = h"
      "length (elems (ma_data (scaled d)) ! k ! i) = w"
    by (simp_all add: wf_ndarray_iff)
  have "elems (ma_data (ma_transpose_120 (astype_uint8 (scaled d)))) ! i ! j ! k =
      elems (map3 uint8_of (ma_data (scaled d))) ! k ! i ! j"
    using s kij by (simp add: ma_transpose_120_def astype_uint8_def transpose_120_def map3_def)
  also have "\<dots> = uint8_of (elems (ma_data (scaled d)) ! k ! i ! j)"
    using l kij by (simp add: map3_def)
  finally show ?thesis
    using scaled_nth [OF wf sh kij(3) kij(1) kij(2)] by simp
qed

lemma dstack_nth:
  assumes "wf_ndarray (ma_data rgb)" "shape (ma_data rgb) = (h, w, n)"
    and "length a = h" "\<forall>i<h. length (a ! i) = w"
    and "i < h" "j < w" "k < n"
  shows "elems (ma_data (dstack rgb a)) ! i ! j ! k = elems (ma_data rgb) ! i ! j ! k"
  using assms
  by (auto simp: dstack_def wf_ndarray_iff nth_append)

lemma dstack_meta: "ma_mask (dstack rgb a) = None" "dtype (dstack rgb a) = dtype rgb"
  by (simp_all add: dstack_def split: prod.splits)

lemma rgb_mask:
  "ma_mask (ma_transpose_120 (astype_uint8 (scaled d))) = map_option transpose_120 (ma_mask d)"
  "dtype (ma_transpose_120 (astype_uint8 (scaled d))) = UInt8"
  by (simp_all add: ma_transpose_120_def astype_uint8_def scaled_mask)

text \<open>
  Claim C10. On a well-formed band-major input of three or four bands,
  \<^verbatim>\<open>Image.transform\<close> returns; the format tag is RGBA; the returned buffer has shape
  rows by columns by 4, every pixel holding exactly four values, and it is
  pixel-interleaved: the value of band \<open>k\<close> at row \<open>i\<close>, column \<open>j\<close> of the input, scaled
  by 255 when the input holds unmasked 32-bit floats and converted to a byte, stands at
  position \<open>(i, j, k)\<close> of the result. For a three-band input the fourth value of a pixel
  is 0 when one of the three bands is masked there and 255 otherwise, hence 255
  everywhere when the input has no masked value, and the result carries no mask. For a
  four-band input the mask of the result is the mask of the input, moved to the same
  positions as the values.
\<close>

theorem transform_rgba:
  assumes wf: "wf_marray (data p)"
    and sh: "shape (ma_data (data p)) = (count, h, w)"
    and cnt: "count = 3 \<or> count = 4"
  shows "\<exists>q. snd (transform p) = Inr (q, ''RGBA'')
      \<and> shape (ma_data (data q)) = (h, w, 4)
      \<and> wf_ndarray (ma_data (data q))
      \<and> (count = 3 \<longrightarrow>
           (\<forall>i<h. \<forall>j<w. elems (ma_data (data q)) ! i ! j ! 3 =
               (if \<exists>b<3. masked_at (data p) b i j then 0 else 255))
           \<and> (\<not> mask_any (data p) \<longrightarrow>
                (\<forall>i<h. \<forall>j<w. elems (ma_data (data q)) ! i ! j ! 3 = 255)))
      \<and> (\<forall>i<h. \<forall>j<w. \<forall>k<count. elems (ma_data (data q)) ! i ! j ! k =
             uint8_of (if dtype (data p) = Float32 \<and> \<not> masked_at (data p) k i j
                       then elems (ma_data (data p)) ! k ! i ! j * 255
                       else elems (ma_data (data p)) ! k ! i ! j))
      \<and> dtype (data q) = UInt8
      \<and> pc_bounds q = pc_bounds p
      \<and> (count = 3 \<longrightarrow> ma_mask (data q) = None)
      \<and> (count = 4 \<longrightarrow>
           (case ma_mask (data p) of
              None \<Rightarrow> ma_mask (data q) = None
            | Some msk \<Rightarrow>
                (\<exists>msk'. ma_mask (data q) = Some msk' \<and> shape msk' = (h, w, 4)
                   \<and> wf_ndarray msk'
                   \<and> (\<forall>i<h. \<forall>j<w. \<forall>k<4. elems msk' ! i ! j ! k = elems msk ! k ! i ! j))))"
proof (cases "count = 4")
  case True
  with sh have s4: "shape (ma_data (data p)) = (4, h, w)" by simp
  let ?rgba = "ma_transpose_120 (astype_uint8 (scaled (data p)))"
  have res: "snd (transform p) = Inr (\<lparr>data = ?rgba, pc_bounds = pc_bounds p\<rparr>, ''RGBA'')"
    by (simp add: transform_four [OF s4])
  have vals: "\<forall>i<h. \<forall>j<w. \<forall>k<count. elems (ma_data ?rgba) ! i ! j ! k =
             uint8_of (if dtype (data p) = Float32 \<and> \<not> masked_at (data p) k i j
                       then elems (ma_data (data p)) ! k ! i ! j * 255
                       else elems (ma_data (data p)) ! k ! i ! j)"
    using rgb_nth [OF wf sh] by blast
  have msk: "case ma_mask (data p) of
              None \<Rightarrow> ma_mask ?rgba = None
            | Some msk \<Rightarrow>
                (\<exists>msk'. ma_mask ?rgba = Some msk' \<and> shape msk' = (h, w, 4)
                   \<and> wf_ndarray msk'
                   \<and> (\<forall>i<h. \<forall>j<w. \<forall>k<4. elems msk' ! i ! j ! k = elems msk ! k ! i ! j))"
  proof (cases "ma_mask (data p)")
    case None
    then show ?thesis by (simp add: rgb_mask)
  next
    case (Some m)
    with wf s4 have m: "shape m = (4, h, w)" by (simp add: wf_marray_def)
    have "shape (transpose_120 m) = (h, w, 4)"
      by (rule shape_transpose_120 [OF m])
    moreover have "\<forall>i<h. \<forall>j<w. \<forall>k<4. elems (transpose_120 m) ! i ! j ! k = elems m ! k ! i ! j"
      using nth_transpose_120 [OF m] by blast
    ultimately show ?thesis
      using Some by (simp add: rgb_mask wf_transpose_120)
  qed
  show ?thesis
    using True res rgb_shape [OF wf s4] vals msk rgb_mask(2) [of "data p"]
    by (intro exI [of _ "\<lparr>data = ?rgba, pc_bounds = pc_bounds p\<rparr>"])
       (simp cong: option.case_cong)
next
  case False
  with cnt have c3: "count = 3" by simp
  with sh have s3: "shape (ma_data (data p)) = (3, h, w)" by simp
  let ?rgb = "ma_transpose_120 (astype_uint8 (scaled (data p)))"
  let ?ones = "full (h, w) 255"
  let ?a = "if mask_any (data p)
            then (case ma_mask (data p) of Some msk \<Rightarrow> valid_alpha msk | None \<Rightarrow> ?ones)
            else ?ones"
  let ?q = "\<lparr>data = dstack ?rgb ?a, pc_bounds = pc_bounds p\<rparr>"
  have rgb: "shape (ma_data ?rgb) = (h, w, 3)" "wf_ndarray (ma_data ?rgb)"
    using rgb_shape [OF wf s3] by simp_all
  have res: "snd (transform p) = Inr (?q, ''RGBA'')"
    by (simp add: transform_three [OF wf s3])
  have any: "mask_any (data p) \<longleftrightarrow> (\<exists>b<3. \<exists>i<h. \<exists>j<w. masked_at (data p) b i j)"
    by (rule mask_any_iff [OF wf s3])
  have a_dims: "length ?a = h \<and> (\<forall>i<h. length (?a ! i) = w)"
  proof (cases "ma_mask (data p)")
    case None
    then show ?thesis by (simp add: full_dims)
  next
    case (Some msk)
    with wf s3 have "shape msk = (3, h, w)" by (simp add: wf_marray_def)
    then show ?thesis using Some valid_alpha_dims [of msk 3 h w] by (simp add: full_dims)
  qed
  have a_val: "?a ! i ! j = (if \<exists>b<3. masked_at (data p) b i j then 0 else 255)"
    if ij: "i < h" "j < w" for i j
  proof (cases "mask_any (data p)")
    case False
    with any ij have "\<not> (\<exists>b<3. masked_at (data p) b i j)" by blast
    with False ij show ?thesis by (simp add: full_nth)
  next
    case True
    then obtain msk where m: "ma_mask (data p) = Some msk"
      by (auto simp: mask_any_def split: option.splits)
    with wf s3 have "wf_ndarray msk" "shape msk = (3, h, w)" by (simp_all add: wf_marray_def)
    from valid_alpha_nth [OF this ij] True m show ?thesis by (simp add: masked_at_def)
  qed
  have d1: "shape (ma_data (dstack ?rgb ?a)) = (h, w, 4)"
    using dstack_props(1) [OF rgb(2) rgb(1), of ?a] a_dims by simp
  have d2: "wf_ndarray (ma_data (dstack ?rgb ?a))"
    using dstack_props(2) [OF rgb(2) rgb(1), of ?a] a_dims by simp
  have d3: "elems (ma_data (dstack ?rgb ?a)) ! i ! j ! 3 = ?a ! i ! j" if "i < h" "j < w" for i j
    using dstack_props(3) [OF rgb(2) rgb(1), of ?a i j] a_dims that by simp
  have d4: "elems (ma_data (dstack ?rgb ?a)) ! i ! j ! k = elems (ma_data ?rgb) ! i ! j ! k"
    if "i < h" "j < w" "k < 3" for i j k
    using dstack_nth [OF rgb(2) rgb(1), of ?a i j k] a_dims that by simp
  have alpha: "\<forall>i<h. \<forall>j<w. elems (ma_data (dstack ?rgb ?a)) ! i ! j ! 3 =
      (if \<exists>b<3. masked_at (data p) b i j then 0 else 255)"
    using d3 a_val by simp
  have uniform: "\<not> mask_any (data p) \<longrightarrow>
      (\<forall>i<h. \<forall>j<w. elems (ma_data (dstack ?rgb ?a)) ! i ! j ! 3 = 255)"
    using alpha any by auto
  have vals: "\<forall>i<h. \<forall>j<w. \<forall>k<count. elems (ma_data (dstack ?rgb ?a)) ! i ! j ! k =
             uint8_of (if dtype (data p) = Float32 \<and> \<not> masked_at (data p) k i j
                       then elems (ma_data (data p)) ! k ! i ! j * 255
                       else elems (ma_data (data p)) ! k ! i ! j)"
    using d4 rgb_nth [OF wf s3] c3 by simp
  have meta: "dtype (dstack ?rgb ?a) = UInt8" "ma_mask (dstack ?rgb ?a) = None"
    by (simp_all add: dstack_meta rgb_mask)
  show ?thesis
    using res d1 d2 alpha uniform vals meta c3 by (intro exI [of _ ?q]) simp
qed


theorem transform_rgba_witness:
  "wf_marray (data rgb_pixels)
   \<and> shape (ma_data (data rgb_pixels)) = (3, 1, 2)
   \<and> (\<exists>q. snd (transform rgb_pixels) = Inr (q, ''RGBA'')
        \<and> shape (ma_data (data q)) = (1, 2, 4)
        \<and> elems (ma_data (data q)) ! 0 ! 0 ! 3 = 255
        \<and> elems (ma_data (data q)) ! 0 ! 1 ! 3 = 0
        \<and> elems (ma_data (data q)) ! 0 ! 0 ! 1 = 3
        \<and> elems (ma_data (data q)) ! 0 ! 1 ! 2 = 6
        \<and> ma_mask (data q) = None)
   \<and> wf_marray (data byte_pixels)
   \<and> shape (ma_data (data byte_pixels)) = (4, 1, 1)
   \<and> (\<exists>q. snd (transform byte_pixels) = Inr (q, ''RGBA'')
        \<and> shape (ma_data (data q)) = (1, 1, 4)
        \<and> elems (ma_data (data q)) ! 0 ! 0 ! 0 = 1
        \<and> elems (ma_data (data q)) ! 0 ! 0 ! 3 = 4
        \<and> ma_mask (data q) = None)"
proof -
  have wf: "wf_marray (data rgb_pixels)"
    by (simp add: rgb_pixels_def wf_marray_def wf_ndarray_def)
  have sh: "shape (ma_data (data rgb_pixels)) = (3, 1, 2)"
    by (simp add: rgb_pixels_def)
  have m0: "\<not> (\<exists>b<3. masked_at (data rgb_pixels) b 0 0)"
    by (simp add: rgb_pixels_def masked_at_def numeral_3_eq_3 Ex_less_Suc)
  have m1: "\<exists>b<3. masked_at (data rgb_pixels) b 0 1"
    by (rule exI [of _ 1]) (simp add: rgb_pixels_def masked_at_def)
  have v1: "uint8_of (if dtype (data rgb_pixels) = Float32 \<and> \<not> masked_at (data rgb_pixels) 1 0 0
                       then elems (ma_data (data rgb_pixels)) ! 1 ! 0 ! 0 * 255
                       else elems (ma_data (data rgb_pixels)) ! 1 ! 0 ! 0) = 3"
    by (simp add: rgb_pixels_def uint8_of_def trunc_def)
  have v2: "uint8_of (if dtype (data rgb_pixels) = Float32 \<and> \<not> masked_at (data rgb_pixels) 2 0 1
                       then elems (ma_data (data rgb_pixels)) ! 2 ! 0 ! 1 * 255
                       else elems (ma_data (data rgb_pixels)) ! 2 ! 0 ! 1) = 6"
    by (simp add: rgb_pixels_def uint8_of_def trunc_def)
  from transform_rgba [OF wf sh] obtain q where
    q: "snd (transform rgb_pixels) = Inr (q, ''RGBA'')" "shape (ma_data (data q)) = (1, 2, 4)"
      "\<forall>i<1. \<forall>j<2. elems (ma_data (data q)) ! i ! j ! 3 =
               (if \<exists>b<3. masked_at (data rgb_pixels) b i j then 0 else 255)"
      "\<forall>i<1. \<forall>j<2. \<forall>k<3. elems (ma_data (data q)) ! i ! j ! k =
             uint8_of (if dtype (data rgb_pixels) = Float32 \<and> \<not> masked_at (data rgb_pixels) k i j
                       then elems (ma_data (data rgb_pixels)) ! k ! i ! j * 255
                       else elems (ma_data (data rgb_pixels)) ! k ! i ! j)"
      "ma_mask (data q) = None"
    by auto
  from q(3) m0 have a0: "elems (ma_data (data q)) ! 0 ! 0 ! 3 = 255" by simp
  from q(3) m1 have a1: "elems (ma_data (data q)) ! 0 ! 1 ! 3 = 0" by simp
  have a2: "elems (ma_data (data q)) ! 0 ! 0 ! 1 = 3"
    by (rule trans [OF q(4) [rule_format] v1]) simp_all
  have a3: "elems (ma_data (data q)) ! 0 ! 1 ! 2 = 6"
    by (rule trans [OF q(4) [rule_format] v2]) simp_all
  have first: "\<exists>q. snd (transform rgb_pixels) = Inr (q, ''RGBA'')
        \<and> shape (ma_data (data q)) = (1, 2, 4)
        \<and> elems (ma_data (data q)) ! 0 ! 0 ! 3 = 255
        \<and> elems (ma_data (data q)) ! 0 ! 1 ! 3 = 0
        \<and> elems (ma_data (data q)) ! 0 ! 0 ! 1 = 3
        \<and> elems (ma_data (data q)) ! 0 ! 1 ! 2 = 6
        \<and> ma_mask (data q) = None"
    using q(1,2,5) a0 a1 a2 a3 by blast
  have wf': "wf_marray (data byte_pixels)"
    by (simp add: byte_pixels_def wf_marray_def wf_ndarray_def)
  have sh': "shape (ma_data (data byte_pixels)) = (4, 1, 1)"
    by (simp add: byte_pixels_def)
  have mk: "ma_mask (data byte_pixels) = None" by (simp add: byte_pixels_def)
  have w0: "uint8_of (if dtype (data byte_pixels) = Float32 \<and> \<not> masked_at (data byte_pixels) 0 0 0
                       then elems (ma_data (data byte_pixels)) ! 0 ! 0 ! 0 * 255
                       else elems (ma_data (data byte_pixels)) ! 0 ! 0 ! 0) = 1"
    by (simp add: byte_pixels_def uint8_of_def trunc_def)
  have w3: "uint8_of (if dtype (data byte_pixels) = Float32 \<and> \<not> masked_at (data byte_pixels) 3 0 0
                       then elems (ma_data (data byte_pixels)) ! 3 ! 0 ! 0 * 255
                       else elems (ma_data (data byte_pixels)) ! 3 ! 0 ! 0) = 4"
    by (simp add: byte_pixels_def uint8_of_def trunc_def)
  from transform_rgba [OF wf' sh'] mk obtain q' where
    q': "snd (transform byte_pixels) = Inr (q', ''RGBA'')" "shape (ma_data (data q')) = (1, 1, 4)"
      "\<forall>i<1. \<forall>j<1. \<forall>k<4. elems (ma_data (data q')) ! i ! j ! k =
             uint8_of (if dtype (data byte_pixels) = Float32
                          \<and> \<not> masked_at (data byte_pixels) k i j
                       then elems (ma_data (data byte_pixels)) ! k ! i ! j * 255
                       else elems (ma_data (data byte_pixels)) ! k ! i ! j)"
      "ma_mask (data q') = None"
    by auto
  have b0: "elems (ma_data (data q')) ! 0 ! 0 ! 0 = 1"
    by (rule trans [OF q'(3) [rule_format] w0]) simp_all
  have b3: "elems (ma_data (data q')) ! 0 ! 0 ! 3 = 4"
    by (rule trans [OF q'(3) [rule_format] w3]) simp_all
  have second: "\<exists>q. snd (transform byte_pixels) = Inr (q, ''RGBA'')
        \<and> shape (ma_data (data q)) = (1, 1, 4)
        \<and> elems (ma_data (data q)) ! 0 ! 0 ! 0 = 1
        \<and> elems (ma_data (data q)) ! 0 ! 0 ! 3 = 4
        \<and> ma_mask (data q) = None"
    using q'(1,2,4) b0 b3 by blast
  show ?thesis
    by (intro conjI wf sh first wf' sh' second)
qed

text \<open>
  Claim C3. The guard of \<^verbatim>\<open>Image.transform\<close> can never hold (no count is below 3 and
  above 4), so no band count is rejected: a one-band buffer comes back as a two-band
  buffer tagged RGBA instead of raising the configuration error.
\<close>

theorem transform_one_band_not_rejected:
  "snd (transform one_band_pixels) =
     Inr (\<lparr>data = \<lparr>dtype = UInt8, ma_data = \<lparr>shape = (1, 1, 2), elems = [[[7, 255]]]\<rparr>,
                    ma_mask = None\<rparr>,
            pc_bounds = strip_bounds\<rparr>, ''RGBA'')"
  by (simp add: one_band_pixels_def transform_def mask_any_def astype_uint8_def
      ma_transpose_120_def transpose_120_def map3_def dstack_def full_def uint8_of_def trunc_def)

text \<open>
  Claim C9, as stated: the transformation leaves its input buffer as it was. It fails
  for a buffer of 32-bit floats, whose values the scaling step multiplies by 255 in place.
\<close>

theorem transform_float32_input_counterexample:
  "fst (transform float_pixels) \<noteq> data float_pixels"
  by (simp add: float_pixels_def transform_def imul_def map3_def Let_def)

subsection \<open>The crop adjuster\<close>

lemma isimage_simps: "isimage ''RGBA''" "isimage ''RGB''" "\<not> isimage ''raw''"
  by code_simp+

lemma slice_full: "length xs = n \<Longrightarrow> py_slice 0 (int n) xs = xs"
  by (simp add: py_slice_def slice_len_def slice_index_def)

lemma slice_len_full: "slice_len 0 (int n) n = n"
  by (simp add: slice_len_def slice_index_def)

lemma slice_len_crop:
  "0 \<le> lo \<Longrightarrow> 0 \<le> hi \<Longrightarrow> lo + hi \<le> int n \<Longrightarrow> slice_len lo (int n - hi) n = n - nat lo - nat hi"
  by (auto simp: slice_len_def slice_index_def)

lemma length_py_slice: "length (py_slice a b xs) = slice_len a b (length xs)"
  by (simp add: py_slice_def slice_len_def slice_index_def)

text \<open>
  Claim C7. With all four offsets zero the band-major branch returns its argument
  (\<open>crop_zero_band_major\<close> below), but the image branch reads the shape of a rows by
  columns by bands buffer as (width, height, bands) and slices the rows with the column
  count and the columns with the row count: an image of one row and two columns loses
  its second column.
\<close>

theorem crop_zero_offsets_wide_image:
  "crop wide_image ''RGBA'' (0, 0, 0, 0) =
   Inr \<lparr>data = \<lparr>shape = (1, 1, 4), elems = [[[1, 2, 3, 4]]]\<rparr>,
        pc_bounds = \<lparr>bounds = (0, 0, 2, 1), crs = WEB_MERCATOR_CRS\<rparr>\<rparr>"
  by (simp add: crop_def wide_image_def isimage_simps from_bounds_def translation_def scale_def
      window_bounds_def py_slice_def slice_len_def slice_index_def)

text \<open>
  Claim C2. Cropping one column from the left of a two by two band-major buffer over
  (0, 0, 2, 2) leaves one column, but the bounds returned are (1, 0, 3, 2): the window is
  built with the width and height of the uncropped buffer, so the east edge moves out by
  the same amount as the west edge moves in. Cropping one column from the right leaves
  the bounds at (0, 0, 2, 2).
\<close>

theorem crop_one_column_bounds:
  "crop square_raw ''raw'' (1, 0, 0, 0) =
   Inr \<lparr>data = \<lparr>shape = (1, 2, 1), elems = [[[2], [4]]]\<rparr>,
        pc_bounds = \<lparr>bounds = (1, 0, 3, 2), crs = WEB_MERCATOR_CRS\<rparr>\<rparr>
  \<and> crop square_raw ''raw'' (0, 0, 1, 0) =
   Inr \<lparr>data = \<lparr>shape = (1, 2, 1), elems = [[[1], [3]]]\<rparr>,
        pc_bounds = \<lparr>bounds = (0, 0, 2, 2), crs = WEB_MERCATOR_CRS\<rparr>\<rparr>"
  by (simp add: crop_def square_raw_def isimage_simps from_bounds_def translation_def scale_def
      window_bounds_def py_slice_def slice_len_def slice_index_def)

lemma window_bounds_from_bounds:
  assumes "w \<noteq> 0" "h \<noteq> 0"
  shows "from_bounds (west, south, east, north) w h = Inr t \<Longrightarrow>
    window_bounds (Window l u (of_int w) (of_int h)) t =
      (west + l * ((east - west) / of_int w), south + u * ((south - north) / of_int h),
       east + l * ((east - west) / of_int w), north + u * ((south - north) / of_int h))"
  using assms
  by (auto simp: from_bounds_def window_bounds_def translation_def scale_def field_simps)

lemma crop_band_major:
  assumes fmt: "\<not> isimage fmt"
    and sh: "shape (data pc) = (n, h, w)" and pos: "0 < h" "0 < w"
    and bnd: "bounds (pc_bounds pc) = (west, south, east, north)"
  shows "\<exists>q. crop pc fmt (left, bottom, right, top') = Inr q
     \<and> shape (data q) = (n, slice_len top' (int h - bottom) h, slice_len left (int w - right) w)
     \<and> bounds (pc_bounds q) =
         (west + of_int left * ((east - west) / of_int (int w)),
          south + of_int top' * ((south - north) / of_int (int h)),
          east + of_int left * ((east - west) / of_int (int w)),
          north + of_int top' * ((south - north) / of_int (int h)))"
proof -
  obtain t where t: "from_bounds (west, south, east, north) (int w) (int h) = Inr t"
    using pos by (simp add: from_bounds_def)
  have wb: "window_bounds (Window (of_int left) (of_int top') (of_int (int w)) (of_int (int h))) t =
      (west + of_int left * ((east - west) / of_int (int w)),
       south + of_int top' * ((south - north) / of_int (int h)),
       east + of_int left * ((east - west) / of_int (int w)),
       north + of_int top' * ((south - north) / of_int (int h)))"
    using window_bounds_from_bounds [OF _ _ t] pos by simp
  show ?thesis
    using fmt sh bnd t wb by (simp add: crop_def Let_def)
qed

lemma crop_zero_band_major:
  assumes fmt: "\<not> isimage fmt" and wf: "wf_ndarray (data pc)"
    and sh: "shape (data pc) = (n, h, w)" and pos: "0 < h" "0 < w"
  shows "crop pc fmt (0, 0, 0, 0) = Inr pc"
proof -
  obtain west south east north where bnd: "bounds (pc_bounds pc) = (west, south, east, north)"
    by (cases "bounds (pc_bounds pc)") auto
  obtain t where t: "from_bounds (west, south, east, north) (int w) (int h) = Inr t"
    using pos by (simp add: from_bounds_def)
  have wb: "window_bounds (Window 0 0 (of_int (int w)) (of_int (int h))) t = (west, south, east, north)"
    using window_bounds_from_bounds [OF _ _ t, of 0 0] pos by simp
  have rows: "\<And>band. band \<in> set (elems (data pc)) \<Longrightarrow> length band = h"
    and cols: "\<And>band r. band \<in> set (elems (data pc)) \<Longrightarrow> r \<in> set band \<Longrightarrow> length r = w"
    using wf sh by (auto simp: wf_ndarray_def list_all_iff)
  have el: "map (\<lambda>band. map (py_slice 0 (int w - 0)) (py_slice 0 (int h - 0) band)) (elems (data pc))
      = elems (data pc)"
  proof (rule map_idI)
    fix band assume b: "band \<in> set (elems (data pc))"
    have "py_slice 0 (int h - 0) band = band"
      using rows [OF b] by (simp add: slice_full)
    moreover have "map (py_slice 0 (int w - 0)) band = band"
      using cols [OF b] by (intro map_idI) (simp add: slice_full)
    ultimately show "map (py_slice 0 (int w - 0)) (py_slice 0 (int h - 0) band) = band"
      by simp
  qed
  have "crop pc fmt (0, 0, 0, 0) =
     Inr \<lparr>data = \<lparr>shape = (n, h, w), elems = elems (data pc)\<rparr>,
          pc_bounds = \<lparr>bounds = (west, south, east, north), crs = crs (pc_bounds pc)\<rparr>\<rparr>"
    using fmt sh bnd t wb el by (simp add: crop_def Let_def slice_len_full)
  also have "\<dots> = Inr pc"
    using sh bnd by simp
  finally show ?thesis .
qed

subsection \<open>Buffers and stages\<close>

lemma slice_index_range: "0 \<le> slice_index i n" "slice_index i n \<le> int n"
  by (simp_all add: slice_index_def)

lemma py_slice_map_upt:
  "py_slice s e (map f [0..<n]) =
     map (\<lambda>a. f (nat (slice_index s n) + a)) [0..<slice_len s e n]"
proof -
  let ?j = "nat (slice_index s n)" and ?k = "slice_len s e n"
  have jk: "?j + ?k \<le> n"
    using slice_index_range [of s n] slice_index_range [of e n]
    by (simp add: slice_len_def)
  have "py_slice s e (map f [0..<n]) = map f (take ?k (drop ?j [0..<n]))"
    by (simp add: py_slice_def take_map drop_map)
  also have "take ?k (drop ?j [0..<n]) = [?j..<?j + ?k]"
    using jk by (simp add: take_upt)
  also have "map f [?j..<?j + ?k] = map (\<lambda>a. f (?j + a)) [0..<?k]"
    by (rule nth_equalityI) simp_all
  finally show ?thesis .
qed


lemma crop_box_read:
  assumes "crop \<lparr>data = box_read bx A, pc_bounds = b\<rparr> data_format offs = Inr q"
  shows "data q = box_read (crop_box bx data_format offs) A"
proof -
  obtain o0 n0 o1 n1 o2 n2 where bx: "bx = ((o0, n0), (o1, n1), (o2, n2))"
    by (metis prod.exhaust)
  obtain left bottom right top' where offs: "offs = (left, bottom, right, top')"
    by (metis prod.exhaust)
  show ?thesis
  proof (cases "isimage data_format")
    case True
    with assms show ?thesis
      unfolding bx offs
      by (auto simp: crop_def box_read_def crop_box_def Let_def py_slice_map_upt add.assoc
          split: sum.splits)
  next
    case False
    with assms show ?thesis
      unfolding bx offs
      by (auto simp: crop_def box_read_def crop_box_def Let_def py_slice_map_upt add.assoc
          split: sum.splits)
  qed
qed

lemma map2_upt:
  "map2 f (map g [0..<n]) (map h [0..<n]) = map (\<lambda>a. f (g a) (h a)) [0..<n]"
  by (rule nth_equalityI) simp_all

lemma imul_box_read:
  assumes wf: "wf_marray m" and sh: "shape (ma_data m) = (d0, d1, d2)"
    and fit: "o0 + n0 \<le> d0" "o1 + n1 \<le> d1" "o2 + n2 \<le> d2"
  shows "box_read ((o0, n0), (o1, n1), (o2, n2))
           \<lparr>shape = (d0, d1, d2),
            elems = map (\<lambda>a. map (\<lambda>b. map (\<lambda>c.
                      elems (ma_data m) ! a ! b ! c
                        * (if in_box ((o0, n0), (o1, n1), (o2, n2)) a b c \<and> \<not> masked_at m a b c
                           then k else 1))
                    [0..<d2]) [0..<d1]) [0..<d0]\<rparr>
       = ma_data (imul \<lparr>dtype = dtype m,
                         ma_data = box_read ((o0, n0), (o1, n1), (o2, n2)) (ma_data m),
                         ma_mask = map_option (box_read ((o0, n0), (o1, n1), (o2, n2))) (ma_mask m)\<rparr> k)"
proof (cases "ma_mask m")
  case None
  with fit show ?thesis
    by (simp add: box_read_def imul_def map3_def in_box_def masked_at_def)
next
  case (Some msk)
  with fit show ?thesis
    by (simp add: box_read_def imul_def in_box_def masked_at_def map2_upt)
qed


lemma transform_leaves: "fst (transform p) = scaled (data p)"
  by (auto simp: transform_def scaled_def Let_def split: prod.splits)

lemma transform_returns: "\<exists>q tag. snd (transform p) = Inr (q, tag)"
  using transform_never_raises [of p] by (cases "snd (transform p)") auto

lemma imul_meta: "dtype (imul m k) = dtype m"
  by (simp add: imul_def split: option.splits)

lemma view_read_imul:
  assumes v: "valid_view st v"
  shows "view_read (view_imul st v k) v = imul (view_read st v) k"
proof -
  let ?m = "buffers st ! view_buf v"
  obtain o0 n0 o1 n1 o2 n2 where bx: "view_box v = ((o0, n0), (o1, n1), (o2, n2))"
    by (metis prod.exhaust)
  obtain d0 d1 d2 where sh: "shape (ma_data ?m) = (d0, d1, d2)"
    by (metis prod.exhaust)
  from v bx sh have len: "view_buf v < length (buffers st)" and wf: "wf_marray ?m"
    and fit: "o0 + n0 \<le> d0" "o1 + n1 \<le> d1" "o2 + n2 \<le> d2"
    by (simp_all add: valid_view_def)
  let ?r = "\<lparr>dtype = dtype ?m, ma_data = box_read ((o0, n0), (o1, n1), (o2, n2)) (ma_data ?m),
             ma_mask = map_option (box_read ((o0, n0), (o1, n1), (o2, n2))) (ma_mask ?m)\<rparr>"
  have r: "view_read st v = ?r"
    by (simp add: view_read_def bx Let_def)
  have "view_read (view_imul st v k) v =
      \<lparr>dtype = dtype ?m, ma_data = ma_data (imul ?r k), ma_mask = ma_mask ?r\<rparr>"
    using len imul_box_read [OF wf sh fit, of k]
    by (simp add: view_read_def view_imul_def sh bx Let_def)
  also have "\<dots> = imul ?r k"
    by (simp add: imul_meta imul_mask)
  finally show ?thesis by (simp add: r)
qed

lemma view_imul_buffers:
  assumes len: "view_buf v < length (buffers st)"
    and sh: "shape (ma_data (buffers st ! view_buf v)) = (d0, d1, d2)"
  shows "length (buffers (view_imul st v k)) = length (buffers st)"
    and "collections (view_imul st v k) = collections st"
    and "b \<noteq> view_buf v \<Longrightarrow> buffers (view_imul st v k) ! b = buffers st ! b"
    and "dtype (buffers (view_imul st v k) ! view_buf v) = dtype (buffers st ! view_buf v)"
    and "ma_mask (buffers (view_imul st v k) ! view_buf v) = ma_mask (buffers st ! view_buf v)"
    and "shape (ma_data (buffers (view_imul st v k) ! view_buf v)) = (d0, d1, d2)"
    and "a < d0 \<Longrightarrow> i < d1 \<Longrightarrow> j < d2 \<Longrightarrow>
         elems (ma_data (buffers (view_imul st v k) ! view_buf v)) ! a ! i ! j =
           (if in_box (view_box v) a i j \<and> \<not> masked_at (buffers st ! view_buf v) a i j
            then elems (ma_data (buffers st ! view_buf v)) ! a ! i ! j * k
            else elems (ma_data (buffers st ! view_buf v)) ! a ! i ! j)"
  using len by (simp_all add: view_imul_def sh Let_def)


lemma transform_st_result:
  assumes "snd (transform \<lparr>data = view_read st (data (collections st ! c)),
                            pc_bounds = pc_bounds (collections st ! c)\<rparr>) = Inr (q, tag)"
  shows "transform_st st c =
    (let st1 = (if dtype (view_read st (data (collections st ! c))) = Float32
                then view_imul st (data (collections st ! c)) 255 else st)
     in (st1\<lparr>buffers := buffers st1 @ [data q],
              collections := collections st1 @
                [\<lparr>data = \<lparr>view_buf = length (buffers st1), view_box = whole (ma_data (data q))\<rparr>,
                  pc_bounds = pc_bounds q\<rparr>]\<rparr>,
         Inr (length (collections st1), tag)))"
  using assms by (simp add: transform_st_def Let_def new_buffer_def new_collection_def)

lemma transform_st_effects:
  assumes c: "c < length (collections st)"
    and v: "valid_view st (data (collections st ! c))"
    and run: "transform_st st c = (st', res)"
  shows "\<exists>q tag.
      transform \<lparr>data = view_read st (data (collections st ! c)),
                 pc_bounds = pc_bounds (collections st ! c)\<rparr>
        = (view_read st' (data (collections st ! c)), Inr (q, tag))
      \<and> res = Inr (length (collections st), tag)
      \<and> collections st' = collections st @
           [\<lparr>data = \<lparr>view_buf = length (buffers st), view_box = whole (ma_data (data q))\<rparr>,
             pc_bounds = pc_bounds q\<rparr>]
      \<and> length (buffers st') = Suc (length (buffers st))
      \<and> buffers st' ! length (buffers st) = data q
      \<and> (\<forall>b < length (buffers st).
            b \<noteq> view_buf (data (collections st ! c))
            \<or> dtype (buffers st ! b) \<noteq> Float32 \<longrightarrow> buffers st' ! b = buffers st ! b)
      \<and> (dtype (buffers st ! view_buf (data (collections st ! c))) = Float32 \<longrightarrow>
            buffers st' ! view_buf (data (collections st ! c)) =
            buffers (view_imul st (data (collections st ! c)) 255)
              ! view_buf (data (collections st ! c)))"
proof -
  let ?v = "data (collections st ! c)"
  let ?p = "\<lparr>data = view_read st ?v, pc_bounds = pc_bounds (collections st ! c)\<rparr>"
  let ?m = "buffers st ! view_buf ?v"
  obtain q tag where q: "snd (transform ?p) = Inr (q, tag)"
    using transform_returns by blast
  obtain d0 d1 d2 where sh: "shape (ma_data ?m) = (d0, d1, d2)"
    by (metis prod.exhaust)
  from v have len: "view_buf ?v < length (buffers st)"
    by (simp add: valid_view_def)
  have dt: "dtype (view_read st ?v) = dtype ?m"
    by (simp add: view_read_def Let_def)
  note r = transform_st_result [OF q]
  show ?thesis
  proof (cases "dtype ?m = Float32")
    case True
    let ?st1 = "view_imul st ?v 255"
    note b = view_imul_buffers [OF len sh, where k = 255]
    from run r True dt have st': "st' = ?st1\<lparr>buffers := buffers ?st1 @ [data q],
              collections := collections ?st1 @
                [\<lparr>data = \<lparr>view_buf = length (buffers ?st1), view_box = whole (ma_data (data q))\<rparr>,
                  pc_bounds = pc_bounds q\<rparr>]\<rparr>"
      and res: "res = Inr (length (collections ?st1), tag)"
      by (simp_all add: Let_def)
    have rd: "view_read st' ?v = view_read ?st1 ?v"
      using len b(1) by (simp add: st' view_read_def Let_def nth_append)
    have "fst (transform ?p) = imul (view_read st ?v) 255"
      using True dt by (simp add: transform_leaves scaled_def)
    with view_read_imul [OF v, of 255] rd have "fst (transform ?p) = view_read st' ?v"
      by simp
    with q have t: "transform ?p = (view_read st' ?v, Inr (q, tag))"
      by (simp add: prod_eq_iff)
    have others: "\<forall>b < length (buffers st).
            b \<noteq> view_buf ?v \<or> dtype (buffers st ! b) \<noteq> Float32 \<longrightarrow>
            buffers st' ! b = buffers st ! b"
      using True b(1) b(3) by (auto simp: st' nth_append)
    have new: "buffers st' ! length (buffers st) = data q"
      using b(1) by (simp add: st' nth_append)
    have cols: "collections st' = collections st @
           [\<lparr>data = \<lparr>view_buf = length (buffers st), view_box = whole (ma_data (data q))\<rparr>,
             pc_bounds = pc_bounds q\<rparr>]"
      using b(1) b(2) by (simp add: st')
    have lens: "length (buffers st') = Suc (length (buffers st))"
      using b(1) by (simp add: st')
    have res': "res = Inr (length (collections st), tag)"
      using res b(2) by simp
    have upd: "buffers st' ! view_buf ?v = buffers ?st1 ! view_buf ?v"
      using b(1) len by (simp add: st' nth_append)
    show ?thesis
      using t res' cols lens new others upd by blast
  next
    case False
    from run r False dt have st': "st' = st\<lparr>buffers := buffers st @ [data q],
              collections := collections st @
                [\<lparr>data = \<lparr>view_buf = length (buffers st), view_box = whole (ma_data (data q))\<rparr>,
                  pc_bounds = pc_bounds q\<rparr>]\<rparr>"
      and res: "res = Inr (length (collections st), tag)"
      by (simp_all add: Let_def)
    have rd: "view_read st' ?v = view_read st ?v"
      using len by (simp add: st' view_read_def Let_def nth_append)
    have "fst (transform ?p) = view_read st ?v"
      using False dt by (simp add: transform_leaves scaled_def)
    with q rd have t: "transform ?p = (view_read st' ?v, Inr (q, tag))"
      by (simp add: prod_eq_iff)
    show ?thesis
      using t res False by (intro exI [of _ q] exI [of _ tag]) (simp add: st' nth_append)
  qed
qed

lemma crop_st_effects:
  assumes run: "crop_st st c data_format offs = (st', res)"
  shows "buffers st' = buffers st
     \<and> (case crop \<lparr>data = ma_data (view_read st (data (collections st ! c))),
                    pc_bounds = pc_bounds (collections st ! c)\<rparr> data_format offs of
          Inl err \<Rightarrow> res = Inl err \<and> collections st' = collections st
        | Inr q \<Rightarrow>
            res = Inr (length (collections st))
            \<and> (\<exists>v'. collections st' = collections st @ [\<lparr>data = v', pc_bounds = pc_bounds q\<rparr>]
                 \<and> view_buf v' = view_buf (data (collections st ! c))
                 \<and> ma_data (view_read st' v') = data q))"
proof (cases "crop \<lparr>data = ma_data (view_read st (data (collections st ! c))),
                    pc_bounds = pc_bounds (collections st ! c)\<rparr> data_format offs")
  case (Inl err)
  with run show ?thesis by (simp add: crop_st_def Let_def)
next
  case (Inr q)
  let ?v = "data (collections st ! c)"
  let ?v' = "\<lparr>view_buf = view_buf ?v, view_box = crop_box (view_box ?v) data_format offs\<rparr>"
  from run Inr have st': "st' = st\<lparr>collections := collections st @ [\<lparr>data = ?v', pc_bounds = pc_bounds q\<rparr>]\<rparr>"
    and res: "res = Inr (length (collections st))"
    by (simp_all add: crop_st_def Let_def new_collection_def)
  from Inr have "data q = box_read (crop_box (view_box ?v) data_format offs)
      (ma_data (buffers st ! view_buf ?v))"
    by (intro crop_box_read [of "view_box ?v" _ "pc_bounds (collections st ! c)"])
       (simp add: view_read_def Let_def)
  then have "ma_data (view_read st' ?v') = data q"
    by (simp add: st' view_read_def Let_def)
  with Inr res show ?thesis
    by (simp add: st')
qed


text \<open>
  Claim C9, amended. Take a stage of these files that receives a PixelCollection (the
  crop adjuster or the transform operation of the image transformation), a store, and an
  input PixelCollection in it. When the stage returns, it returns a newly produced
  PixelCollection: one that was not in the store. Every PixelCollection of the store
  stays as it was, and so does every buffer, with one exception: the transform operation,
  given a buffer of 32-bit floats, multiplies by 255, in place, the values of its input
  buffer that the input shows and that are not masked; the element type, the mask and
  the shape of that buffer stay. The PixelCollection that the transform operation
  returns holds the whole of a new buffer, whose content is what \<open>transform\<close> builds
  from converted copies of the input; the one that the crop adjuster returns holds a
  slice of the input's buffer, with the content and the bounds that \<open>crop\<close> computes.
\<close>

theorem stage_effects:
  assumes c: "c < length (collections st)"
    and v: "valid_view st (data (collections st ! c))"
    and run: "run_stage stage st c = (st', res)"
  shows "(\<forall>c'. res = Inr c' \<longrightarrow>
            c' = length (collections st) \<and> length (collections st') = Suc (length (collections st)))
     \<and> (\<forall>i < length (collections st). collections st' ! i = collections st ! i)
     \<and> length (buffers st) \<le> length (buffers st')
     \<and> (\<forall>b < length (buffers st).
           buffers st' ! b = buffers st ! b
           \<or> (stage = Stage_transform \<and> b = view_buf (data (collections st ! c))
               \<and> dtype (buffers st ! b) = Float32))
     \<and> (stage = Stage_transform
          \<and> dtype (buffers st ! view_buf (data (collections st ! c))) = Float32 \<longrightarrow>
           (let m = buffers st ! view_buf (data (collections st ! c));
                m' = buffers st' ! view_buf (data (collections st ! c))
            in dtype m' = dtype m \<and> ma_mask m' = ma_mask m
               \<and> shape (ma_data m') = shape (ma_data m)
               \<and> (case shape (ma_data m) of (d0, d1, d2) \<Rightarrow>
                    \<forall>a<d0. \<forall>i<d1. \<forall>j<d2.
                      elems (ma_data m') ! a ! i ! j =
                        (if in_box (view_box (data (collections st ! c))) a i j
                            \<and> \<not> masked_at m a i j
                         then elems (ma_data m) ! a ! i ! j * 255
                         else elems (ma_data m) ! a ! i ! j))))
     \<and> (stage = Stage_transform \<longrightarrow>
           (\<exists>q tag.
              transform \<lparr>data = view_read st (data (collections st ! c)),
                         pc_bounds = pc_bounds (collections st ! c)\<rparr>
                = (view_read st' (data (collections st ! c)), Inr (q, tag))
              \<and> res = Inr (length (collections st))
              \<and> collections st' ! length (collections st) =
                   \<lparr>data = \<lparr>view_buf = length (buffers st),
                             view_box = whole (ma_data (data q))\<rparr>,
                    pc_bounds = pc_bounds q\<rparr>
              \<and> length (buffers st') = Suc (length (buffers st))
              \<and> buffers st' ! length (buffers st) = data q))
     \<and> (\<forall>data_format offs. stage = Stage_crop data_format offs \<longrightarrow>
           buffers st' = buffers st
           \<and> (case crop \<lparr>data = ma_data (view_read st (data (collections st ! c))),
                          pc_bounds = pc_bounds (collections st ! c)\<rparr> data_format offs of
                 Inl err \<Rightarrow> res = Inl err \<and> collections st' = collections st
               | Inr q \<Rightarrow>
                   res = Inr (length (collections st))
                   \<and> (\<exists>v'. collections st' =
                              collections st @ [\<lparr>data = v', pc_bounds = pc_bounds q\<rparr>]
                        \<and> view_buf v' = view_buf (data (collections st ! c))
                        \<and> ma_data (view_read st' v') = data q)))"
proof (cases stage)
  case (Stage_crop data_format offs)
  with run have r: "crop_st st c data_format offs = (st', res)" by simp
  note e = crop_st_effects [OF r]
  from e have bufs: "buffers st' = buffers st" by simp
  have cols: "(\<forall>c'. res = Inr c' \<longrightarrow>
            c' = length (collections st) \<and> length (collections st') = Suc (length (collections st)))
     \<and> (\<forall>i < length (collections st). collections st' ! i = collections st ! i)"
    using e by (auto simp: nth_append split: sum.splits)
  show ?thesis
    using Stage_crop bufs cols e by (simp del: split_paired_All)
next
  case Stage_transform
  let ?v = "data (collections st ! c)"
  let ?m = "buffers st ! view_buf ?v"
  obtain r where r: "transform_st st c = (st', r)"
    and res: "res = (case r of Inl err \<Rightarrow> Inl err | Inr (c', tag) \<Rightarrow> Inr c')"
    using run Stage_transform by (auto split: prod.splits sum.splits)
  from transform_st_effects [OF c v r] obtain q tag where
    e: "transform \<lparr>data = view_read st ?v, pc_bounds = pc_bounds (collections st ! c)\<rparr>
          = (view_read st' ?v, Inr (q, tag))"
      "r = Inr (length (collections st), tag)"
      "collections st' = collections st @
           [\<lparr>data = \<lparr>view_buf = length (buffers st), view_box = whole (ma_data (data q))\<rparr>,
             pc_bounds = pc_bounds q\<rparr>]"
      "length (buffers st') = Suc (length (buffers st))"
      "buffers st' ! length (buffers st) = data q"
      "\<forall>b < length (buffers st).
            b \<noteq> view_buf ?v \<or> dtype (buffers st ! b) \<noteq> Float32 \<longrightarrow>
            buffers st' ! b = buffers st ! b"
      "dtype ?m = Float32 \<longrightarrow> buffers st' ! view_buf ?v = buffers (view_imul st ?v 255) ! view_buf ?v"
    by blast
  from res e(2) have res': "res = Inr (length (collections st))" by simp
  have p1: "\<forall>c'. res = Inr c' \<longrightarrow>
            c' = length (collections st) \<and> length (collections st') = Suc (length (collections st))"
    using res' e(3) by simp
  have p2: "\<forall>i < length (collections st). collections st' ! i = collections st ! i"
    using e(3) by (simp add: nth_append)
  have p3: "length (buffers st) \<le> length (buffers st')"
    using e(4) by simp
  have p4: "\<forall>b < length (buffers st).
           buffers st' ! b = buffers st ! b
           \<or> (stage = Stage_transform \<and> b = view_buf ?v \<and> dtype (buffers st ! b) = Float32)"
    using e(6) Stage_transform by blast
  have p5: "dtype ?m = Float32 \<longrightarrow>
           (let m = ?m; m' = buffers st' ! view_buf ?v
            in dtype m' = dtype m \<and> ma_mask m' = ma_mask m
               \<and> shape (ma_data m') = shape (ma_data m)
               \<and> (case shape (ma_data m) of (d0, d1, d2) \<Rightarrow>
                    \<forall>a<d0. \<forall>i<d1. \<forall>j<d2.
                      elems (ma_data m') ! a ! i ! j =
                        (if in_box (view_box ?v) a i j \<and> \<not> masked_at m a i j
                         then elems (ma_data m) ! a ! i ! j * 255
                         else elems (ma_data m) ! a ! i ! j)))"
  proof
    assume f: "dtype ?m = Float32"
    obtain d0 d1 d2 where sh: "shape (ma_data ?m) = (d0, d1, d2)"
      by (metis prod.exhaust)
    from v have len: "view_buf ?v < length (buffers st)"
      by (simp add: valid_view_def)
    note b = view_imul_buffers [OF len sh, where k = 255]
    from e(7) f have u: "buffers st' ! view_buf ?v = buffers (view_imul st ?v 255) ! view_buf ?v"
      by simp
    show "let m = ?m; m' = buffers st' ! view_buf ?v
            in dtype m' = dtype m \<and> ma_mask m' = ma_mask m
               \<and> shape (ma_data m') = shape (ma_data m)
               \<and> (case shape (ma_data m) of (d0, d1, d2) \<Rightarrow>
                    \<forall>a<d0. \<forall>i<d1. \<forall>j<d2.
                      elems (ma_data m') ! a ! i ! j =
                        (if in_box (view_box ?v) a i j \<and> \<not> masked_at m a i j
                         then elems (ma_data m) ! a ! i ! j * 255
                         else elems (ma_data m) ! a ! i ! j))"
      using b(4) b(5) b(6) b(7) by (simp add: Let_def u sh)
  qed
  have p6: "\<exists>q tag.
              transform \<lparr>data = view_read st ?v, pc_bounds = pc_bounds (collections st ! c)\<rparr>
                = (view_read st' ?v, Inr (q, tag))
              \<and> res = Inr (length (collections st))
              \<and> collections st' ! length (collections st) =
                   \<lparr>data = \<lparr>view_buf = length (buffers st),
                             view_box = whole (ma_data (data q))\<rparr>,
                    pc_bounds = pc_bounds q\<rparr>
              \<and> length (buffers st') = Suc (length (buffers st))
              \<and> buffers st' ! length (buffers st) = data q"
    using e(1) res' e(3) e(4) e(5) by (intro exI [of _ q] exI [of _ tag]) simp
  show ?thesis
    using Stage_transform p1 p2 p3 p4 p5 p6 by (simp del: split_paired_All)
qed


theorem stage_effects_witness:
  "0 < length (collections float_store)
   \<and> valid_view float_store (data (collections float_store ! 0))
   \<and> snd (run_stage Stage_transform float_store 0) = Inr 1
   \<and> length (collections (fst (run_stage Stage_transform float_store 0))) = 2
   \<and> elems (ma_data (buffers (fst (run_stage Stage_transform float_store 0)) ! 0)) ! 0 ! 0 ! 0 = 255
   \<and> 0 < length (collections byte_store)
   \<and> valid_view byte_store (data (collections byte_store ! 0))
   \<and> snd (run_stage Stage_transform byte_store 0) = Inr 1
   \<and> buffers (fst (run_stage Stage_transform byte_store 0)) ! 0 = data byte_pixels
   \<and> snd (run_stage (Stage_crop ''raw'' (0, 0, 0, 0)) byte_store 0) = Inr 1
   \<and> buffers (fst (run_stage (Stage_crop ''raw'' (0, 0, 0, 0)) byte_store 0)) = [data byte_pixels]"
proof -
  have c0: "0 < length (collections float_store)"
    by (simp add: float_store_def)
  have v0: "valid_view float_store (data (collections float_store ! 0))"
    by (simp add: float_store_def float_pixels_def valid_view_def wf_marray_def wf_ndarray_def)
  have c1: "0 < length (collections byte_store)"
    by (simp add: byte_store_def)
  have v1: "valid_view byte_store (data (collections byte_store ! 0))"
    by (simp add: byte_store_def byte_pixels_def valid_view_def wf_marray_def wf_ndarray_def)
  let ?f = "run_stage Stage_transform float_store 0"
  let ?b = "run_stage Stage_transform byte_store 0"
  let ?c = "run_stage (Stage_crop ''raw'' (0, 0, 0, 0)) byte_store 0"
  note f = stage_effects [OF c0 v0, of Stage_transform "fst ?f" "snd ?f"]
  note b = stage_effects [OF c1 v1, of Stage_transform "fst ?b" "snd ?b"]
  note k = stage_effects [OF c1 v1, of "Stage_crop ''raw'' (0, 0, 0, 0)" "fst ?c" "snd ?c"]
  have f6: "\<exists>q tag. snd ?f = Inr (length (collections float_store))"
    using f [THEN conjunct2, THEN conjunct2, THEN conjunct2, THEN conjunct2, THEN conjunct2,
        THEN conjunct1] by auto
  then have f_res: "snd ?f = Inr 1" by (simp add: float_store_def)
  have f_len: "length (collections (fst ?f)) = 2"
    using f [THEN conjunct1] f_res by (simp add: float_store_def)
  have fd: "dtype (buffers float_store ! view_buf (data (collections float_store ! 0))) = Float32"
    by (simp add: float_store_def float_pixels_def)
  have f5: "elems (ma_data (buffers (fst ?f) ! 0)) ! 0 ! 0 ! 0 = 255"
    using f [THEN conjunct2, THEN conjunct2, THEN conjunct2, THEN conjunct2, THEN conjunct1] fd
    by (simp add: float_store_def float_pixels_def Let_def in_box_def masked_at_def)
  have b6: "\<exists>q tag. snd ?b = Inr (length (collections byte_store))"
    using b [THEN conjunct2, THEN conjunct2, THEN conjunct2, THEN conjunct2, THEN conjunct2,
        THEN conjunct1] by auto
  then have b_res: "snd ?b = Inr 1" by (simp add: byte_store_def)
  have b4: "buffers (fst ?b) ! 0 = data byte_pixels"
    using b [THEN conjunct2, THEN conjunct2, THEN conjunct2, THEN conjunct1]
    by (simp add: byte_store_def byte_pixels_def)
  have cr: "crop \<lparr>data = ma_data (view_read byte_store (data (collections byte_store ! 0))),
                  pc_bounds = pc_bounds (collections byte_store ! 0)\<rparr> ''raw'' (0, 0, 0, 0) =
      Inr \<lparr>data = \<lparr>shape = (4, 1, 1), elems = [[[1]], [[2]], [[3]], [[4]]]\<rparr>,
           pc_bounds = strip_bounds\<rparr>"
    by (simp add: byte_store_def byte_pixels_def view_read_def box_read_def crop_def isimage_simps
        strip_bounds_def from_bounds_def translation_def scale_def window_bounds_def py_slice_def
        slice_len_def slice_index_def upt_rec)
  from k [THEN conjunct2, THEN conjunct2, THEN conjunct2, THEN conjunct2, THEN conjunct2,
      THEN conjunct2, rule_format, of "''raw''" "(0, 0, 0, 0)"]
  have k7: "buffers (fst ?c) = buffers byte_store" "snd ?c = Inr (length (collections byte_store))"
    unfolding cr by simp_all
  then have k_res: "snd ?c = Inr 1" and k_buf: "buffers (fst ?c) = [data byte_pixels]"
    by (simp_all add: byte_store_def)
  show ?thesis
    by (intro conjI c0 v0 f_res f_len f5 c1 v1 b_res b4 k_res k_buf)
qed

subsection \<open>The transform planner\<close>

lemma get_zoom_positive:
  "0 < r \<Longrightarrow> get_zoom r op = Inr (op (ln (2 * pi * 6378137 / (r * 256)) / ln 2))"
  by (simp add: get_zoom_def Let_def not_le)

lemma special_size_bound:
  "special_size haversine src = Inr (zoom, w, h) \<Longrightarrow>
   zoom \<le> 22 \<and> w = 256 * 2 powi zoom \<and> h = 256 * 2 powi zoom"
  by (auto simp: special_size_def Let_def mult.commute split: sum.splits)

lemma special_size_positive:
  assumes src: "get_resolution_in_meters haversine \<lparr>bounds = src_bounds src, crs = src_crs src\<rparr>
                   (src_height src, src_width src) = Inr source_resolution"
    and pos: "0 < max (fst source_resolution) (snd source_resolution)"
  shows "special_size haversine src =
     Inr (min 22 \<lceil>ln (2 * pi * 6378137 / (max (fst source_resolution) (snd source_resolution) * 256)) / ln 2\<rceil>,
          256 * 2 powi (min 22 \<lceil>ln (2 * pi * 6378137 / (max (fst source_resolution) (snd source_resolution) * 256)) / ln 2\<rceil>),
          256 * 2 powi (min 22 \<lceil>ln (2 * pi * 6378137 / (max (fst source_resolution) (snd source_resolution) * 256)) / ln 2\<rceil>))"
  by (simp add: special_size_def src get_zoom_positive [OF pos] Let_def mult.commute)

text \<open>
  Claim C5. Let the special-case branch be taken: the two resolutions are computed and
  the condition of the branch holds. Every zoom that the branch binds is at most 22 and
  comes with a destination width and height of 256 times two to the power of that zoom;
  every plan that the branch returns carries such a zoom, width and height. When the
  coarser source resolution is positive the zoom is bound, as the minimum of 22 and the
  rounded-up logarithm, and the branch returns the plan, or raises the lookup error when
  the string form of the target system is not a key of the extent table (a system equal
  to web Mercator but written differently). When it is not positive, \<open>get_zoom\<close> raises
  and no zoom is bound.
\<close>

theorem special_case_plan:
  assumes src: "get_resolution_in_meters haversine \<lparr>bounds = src_bounds src, crs = src_crs src\<rparr>
                   (src_height src, src_width src) = Inr source_resolution"
    and tgt: "get_resolution bnds target_shape = Inr target_resolution"
    and sp: "special_case recipes bnds target_resolution source_resolution"
  shows "(\<forall>zoom w h. special_size haversine src = Inr (zoom, w, h) \<longrightarrow>
            zoom \<le> 22 \<and> w = 256 * 2 powi zoom \<and> h = 256 * 2 powi zoom)
     \<and> (\<forall>p. plan_transform haversine calc src bnds target_shape recipes = Inr p \<longrightarrow>
            (\<exists>zoom t. p = Special zoom t (256 * 2 powi zoom) (256 * 2 powi zoom) \<and> zoom \<le> 22
                 \<and> special_size haversine src = Inr (zoom, 256 * 2 powi zoom, 256 * 2 powi zoom)))
     \<and> (0 < max (fst source_resolution) (snd source_resolution) \<longrightarrow>
           (\<exists>zoom. zoom \<le> 22
              \<and> zoom = min 22 \<lceil>ln (2 * pi * 6378137
                          / (max (fst source_resolution) (snd source_resolution) * 256)) / ln 2\<rceil>
              \<and> special_size haversine src = Inr (zoom, 256 * 2 powi zoom, 256 * 2 powi zoom)
              \<and> (case map_of EXTENTS (str_crs (crs bnds)) of
                    None \<Rightarrow>
                      plan_transform haversine calc src bnds target_shape recipes =
                        Inl (KeyError (str_crs (crs bnds)))
                  | Some (e0, e1, e2, e3) \<Rightarrow>
                      plan_transform haversine calc src bnds target_shape recipes =
                        Inr (Special zoom
                               (Affine ((e2 - e0) / (256 * 2 powi zoom)) 0 e0 0
                                       (- ((e3 - e1) / (256 * 2 powi zoom))) e3)
                               (256 * 2 powi zoom) (256 * 2 powi zoom)))))"
proof (intro conjI allI impI)
  fix zoom w h assume "special_size haversine src = Inr (zoom, w, h)"
  then show "zoom \<le> 22" "w = 256 * 2 powi zoom" "h = 256 * 2 powi zoom"
    using special_size_bound by blast+
next
  fix p assume p: "plan_transform haversine calc src bnds target_shape recipes = Inr p"
  then obtain zoom w h where sz: "special_size haversine src = Inr (zoom, w, h)"
    by (auto simp: plan_transform_def src tgt sp split: sum.splits)
  from special_size_bound [OF sz] have b: "zoom \<le> 22" "w = 256 * 2 powi zoom" "h = 256 * 2 powi zoom"
    by simp_all
  from p sz obtain t where "p = Special zoom t w h"
    by (auto simp: plan_transform_def src tgt sp Let_def split: sum.splits)
  with b sz show "\<exists>zoom t. p = Special zoom t (256 * 2 powi zoom) (256 * 2 powi zoom) \<and> zoom \<le> 22
       \<and> special_size haversine src = Inr (zoom, 256 * 2 powi zoom, 256 * 2 powi zoom)"
    by auto
next
  assume pos: "0 < max (fst source_resolution) (snd source_resolution)"
  define z where "z = min 22 \<lceil>ln (2 * pi * 6378137
                          / (max (fst source_resolution) (snd source_resolution) * 256)) / ln 2\<rceil>"
  have sz: "special_size haversine src = Inr (z, 256 * 2 powi z, 256 * 2 powi z)"
    unfolding z_def by (rule special_size_positive [OF src pos])
  have pl: "case map_of EXTENTS (str_crs (crs bnds)) of
                    None \<Rightarrow>
                      plan_transform haversine calc src bnds target_shape recipes =
                        Inl (KeyError (str_crs (crs bnds)))
                  | Some (e0, e1, e2, e3) \<Rightarrow>
                      plan_transform haversine calc src bnds target_shape recipes =
                        Inr (Special z
                               (Affine ((e2 - e0) / (256 * 2 powi z)) 0 e0 0
                                       (- ((e3 - e1) / (256 * 2 powi z))) e3)
                               (256 * 2 powi z) (256 * 2 powi z))"
    by (simp add: plan_transform_def src tgt sp sz get_extent_def Let_def split: option.splits)
  have "z \<le> 22" by (simp add: z_def)
  with sz pl show "\<exists>zoom. zoom \<le> 22
              \<and> zoom = min 22 \<lceil>ln (2 * pi * 6378137
                          / (max (fst source_resolution) (snd source_resolution) * 256)) / ln 2\<rceil>
              \<and> special_size haversine src = Inr (zoom, 256 * 2 powi zoom, 256 * 2 powi zoom)
              \<and> (case map_of EXTENTS (str_crs (crs bnds)) of
                    None \<Rightarrow>
                      plan_transform haversine calc src bnds target_shape recipes =
                        Inl (KeyError (str_crs (crs bnds)))
                  | Some (e0, e1, e2, e3) \<Rightarrow>
                      plan_transform haversine calc src bnds target_shape recipes =
                        Inr (Special zoom
                               (Affine ((e2 - e0) / (256 * 2 powi zoom)) 0 e0 0
                                       (- ((e3 - e1) / (256 * 2 powi zoom))) e3)
                               (256 * 2 powi zoom) (256 * 2 powi zoom)))"
    unfolding z_def [symmetric] by (intro exI [of _ z]) simp
qed


theorem special_case_plan_witness:
  "get_resolution_in_meters no_haversine
      \<lparr>bounds = src_bounds mercator_source, crs = src_crs mercator_source\<rparr>
      (src_height mercator_source, src_width mercator_source) = Inr (1, 1)
   \<and> (0::real) < max (fst (1, 1)) (snd (1, 1))
   \<and> get_resolution coarse_target (256, 256) = Inr (4, 4)
   \<and> special_case dem_recipe coarse_target (4, 4) (1, 1)
   \<and> (\<exists>zoom t. zoom \<le> 22
         \<and> special_size no_haversine mercator_source =
             Inr (zoom, 256 * 2 powi zoom, 256 * 2 powi zoom)
         \<and> plan_transform no_haversine no_memory mercator_source coarse_target (256, 256)
             dem_recipe =
             Inr (Special zoom t (256 * 2 powi zoom) (256 * 2 powi zoom)))
   \<and> get_resolution google_target (256, 256) = Inr (4, 4)
   \<and> special_case dem_recipe google_target (4, 4) (1, 1)
   \<and> (\<exists>zoom. zoom \<le> 22
         \<and> special_size no_haversine mercator_source =
             Inr (zoom, 256 * 2 powi zoom, 256 * 2 powi zoom)
         \<and> plan_transform no_haversine no_memory mercator_source google_target (256, 256)
             dem_recipe =
             Inl (KeyError ''EPSG:900913''))"
proof -
  have a: "get_resolution_in_meters no_haversine
      \<lparr>bounds = src_bounds mercator_source, crs = src_crs mercator_source\<rparr>
      (src_height mercator_source, src_width mercator_source) = Inr (1, 1)"
    by (simp add: get_resolution_in_meters_def get_resolution_def mercator_source_def
        WEB_MERCATOR_CRS_def from_bounds_def translation_def scale_def)
  have d: "(0::real) < max (fst (1, 1)) (snd (1, 1))" by simp
  have b: "get_resolution coarse_target (256, 256) = Inr (4, 4)"
    by (simp add: get_resolution_def coarse_target_def from_bounds_def translation_def scale_def)
  have c: "special_case dem_recipe coarse_target (4, 4) (1, 1)"
    by (simp add: special_case_def dem_recipe_def coarse_target_def crs_eq_def)
  have b': "get_resolution google_target (256, 256) = Inr (4, 4)"
    by (simp add: get_resolution_def google_target_def from_bounds_def translation_def scale_def)
  have c': "special_case dem_recipe google_target (4, 4) (1, 1)"
    by (simp add: special_case_def dem_recipe_def google_target_def crs_eq_def
        WEB_MERCATOR_CRS_def)
  have m: "map_of EXTENTS (str_crs (crs coarse_target)) =
      Some (- pi * EARTH_RADIUS, - pi * EARTH_RADIUS, pi * EARTH_RADIUS, pi * EARTH_RADIUS)"
    by (simp add: EXTENTS_def coarse_target_def)
  have m': "map_of EXTENTS ''EPSG:900913'' = None"
    by (simp add: EXTENTS_def WEB_MERCATOR_CRS_def WGS84_CRS_def)
  have s': "str_crs (crs google_target) = ''EPSG:900913''"
    by (simp add: google_target_def)
  from special_case_plan [OF a b c, of no_memory] d
  obtain zoom where z: "zoom \<le> 22"
      "special_size no_haversine mercator_source =
         Inr (zoom, 256 * 2 powi zoom, 256 * 2 powi zoom)"
      "case map_of EXTENTS (str_crs (crs coarse_target)) of
         None \<Rightarrow>
           plan_transform no_haversine no_memory mercator_source coarse_target (256, 256)
             dem_recipe = Inl (KeyError (str_crs (crs coarse_target)))
       | Some (e0, e1, e2, e3) \<Rightarrow>
           plan_transform no_haversine no_memory mercator_source coarse_target (256, 256)
             dem_recipe =
             Inr (Special zoom
                    (Affine ((e2 - e0) / (256 * 2 powi zoom)) 0 e0 0
                            (- ((e3 - e1) / (256 * 2 powi zoom))) e3)
                    (256 * 2 powi zoom) (256 * 2 powi zoom))"
    by blast
  from z(3) have "\<exists>t. plan_transform no_haversine no_memory mercator_source coarse_target
        (256, 256) dem_recipe = Inr (Special zoom t (256 * 2 powi zoom) (256 * 2 powi zoom))"
    unfolding m by simp
  with z(1,2) have first: "\<exists>zoom t. zoom \<le> 22
         \<and> special_size no_haversine mercator_source =
             Inr (zoom, 256 * 2 powi zoom, 256 * 2 powi zoom)
         \<and> plan_transform no_haversine no_memory mercator_source coarse_target (256, 256)
             dem_recipe =
             Inr (Special zoom t (256 * 2 powi zoom) (256 * 2 powi zoom))"
    by blast
  from special_case_plan [OF a b' c', of no_memory] d
  obtain zoom' where z': "zoom' \<le> 22"
      "special_size no_haversine mercator_source =
         Inr (zoom', 256 * 2 powi zoom', 256 * 2 powi zoom')"
      "case map_of EXTENTS (str_crs (crs google_target)) of
         None \<Rightarrow>
           plan_transform no_haversine no_memory mercator_source google_target (256, 256)
             dem_recipe = Inl (KeyError (str_crs (crs google_target)))
       | Some (e0, e1, e2, e3) \<Rightarrow>
           plan_transform no_haversine no_memory mercator_source google_target (256, 256)
             dem_recipe =
             Inr (Special zoom'
                    (Affine ((e2 - e0) / (256 * 2 powi zoom')) 0 e0 0
                            (- ((e3 - e1) / (256 * 2 powi zoom'))) e3)
                    (256 * 2 powi zoom') (256 * 2 powi zoom'))"
    by blast
  from z'(3) have "plan_transform no_haversine no_memory mercator_source google_target
        (256, 256) dem_recipe = Inl (KeyError ''EPSG:900913'')"
    unfolding s' m' by simp
  with z'(1,2) have second: "\<exists>zoom. zoom \<le> 22
         \<and> special_size no_haversine mercator_source =
             Inr (zoom, 256 * 2 powi zoom, 256 * 2 powi zoom)
         \<and> plan_transform no_haversine no_memory mercator_source google_target (256, 256)
             dem_recipe =
             Inl (KeyError ''EPSG:900913'')"
    by blast
  show ?thesis
    by (intro conjI a d b c b' c' first second)
qed

lemma retry_exhausted:
  "(\<And>sc dc w h b r. calc sc dc w h b r = Inl MemoryError
                    \<or> calc sc dc w h b r = Inl CPLE_OutOfMemoryError) \<Longrightarrow>
   0 \<le> attempts \<Longrightarrow> 0 < scale_factor \<Longrightarrow>
    \<exists>n k. retry calc src dst_crs resolution attempts scale_factor = Inr (Generic n k None None)
         \<and> attempts \<le> n \<and> 0 < k
         \<and> \<not> (0 < src_width src div k \<and> 0 < src_height src div k)"
proof (induction calc src dst_crs resolution attempts scale_factor rule: retry.induct)
  case (1 calc src dst_crs resolution attempts scale_factor)
  note oom = "1.prems"(1)
  have sf: "scale_factor \<noteq> 0" using "1.prems" by simp
  show ?case
  proof (cases "0 < src_width src div scale_factor \<and> 0 < src_height src div scale_factor")
    case False
    with "1.prems"(2,3) show ?thesis
      by (subst retry.simps) auto
  next
    case True
    obtain err where e: "calc (src_crs src) dst_crs (src_width src div scale_factor)
        (src_height src div scale_factor) (src_bounds src) resolution = Inl err"
      "err = MemoryError \<or> err = CPLE_OutOfMemoryError"
      using oom [of "src_crs src" dst_crs "src_width src div scale_factor"
          "src_height src div scale_factor" "src_bounds src" resolution] by blast
    have "\<exists>n k. retry calc src dst_crs resolution (attempts + 1) (2 * (attempts + 1)) =
            Inr (Generic n k None None)
         \<and> attempts + 1 \<le> n \<and> 0 < k
         \<and> \<not> (0 < src_width src div k \<and> 0 < src_height src div k)"
      using "1.prems"(2) by (intro "1.IH" [OF sf True e(1) e(2)] oom) simp_all
    then obtain n k where
      r: "retry calc src dst_crs resolution (attempts + 1) (2 * (attempts + 1)) =
            Inr (Generic n k None None)"
        "attempts + 1 \<le> n" "0 < k"
        "\<not> (0 < src_width src div k \<and> 0 < src_height src div k)"
      by blast
    have "retry calc src dst_crs resolution attempts scale_factor =
        retry calc src dst_crs resolution (attempts + 1) (2 * (attempts + 1))"
      using True sf e by (subst retry.simps) auto
    with r show ?thesis by auto
  qed
qed

lemma retry_positive_dimensions:
  "retry calc src dst_crs resolution attempts scale_factor = Inr p \<Longrightarrow>
   dst_transform p = Some t \<Longrightarrow>
   \<exists>k t0 w h. k \<noteq> 0 \<and> 0 < src_width src div k \<and> 0 < src_height src div k
     \<and> calc (src_crs src) dst_crs (src_width src div k) (src_height src div k)
          (src_bounds src) resolution = Inr (t0, w, h)
     \<and> t = affine_mul t0 (affine_inverse (scale (of_int k) (of_int k)))"
proof (induction calc src dst_crs resolution attempts scale_factor rule: retry.induct)
  case (1 calc src dst_crs resolution attempts scale_factor)
  from "1.prems"(1) have sf: "scale_factor \<noteq> 0"
    by (subst (asm) retry.simps) (auto split: if_splits)
  show ?case
  proof (cases "0 < src_width src div scale_factor \<and> 0 < src_height src div scale_factor")
    case False
    with "1.prems" sf show ?thesis
      by (subst (asm) retry.simps) auto
  next
    case True
    show ?thesis
    proof (cases "calc (src_crs src) dst_crs (src_width src div scale_factor)
        (src_height src div scale_factor) (src_bounds src) resolution")
      case (Inr res)
      obtain t0 w h where res: "res = (t0, w, h)" by (cases res) auto
      from "1.prems" True sf Inr res
      have "t = affine_mul t0 (affine_inverse (scale (of_int scale_factor) (of_int scale_factor)))"
        by (subst (asm) retry.simps) (auto simp: Let_def)
      with True sf Inr res show ?thesis by blast
    next
      case (Inl err)
      show ?thesis
      proof (cases "err = MemoryError \<or> err = CPLE_OutOfMemoryError")
        case False
        with "1.prems" True sf Inl show ?thesis
          by (subst (asm) retry.simps) auto
      next
        case mem: True
        have "retry calc src dst_crs resolution attempts scale_factor =
            retry calc src dst_crs resolution (attempts + 1) (2 * (attempts + 1))"
          using True sf Inl mem by (subst retry.simps) auto
        with "1.prems" "1.IH" [OF sf True Inl mem] show ?thesis by simp
      qed
    qed
  qed
qed

lemma read_window_exhausted:
  assumes oom: "\<And>sc dc w h b r. calc sc dc w h b r = Inl MemoryError
                    \<or> calc sc dc w h b r = Inl CPLE_OutOfMemoryError"
    and src: "get_resolution_in_meters haversine \<lparr>bounds = src_bounds src, crs = src_crs src\<rparr>
                   (src_height src, src_width src) = Inr source_resolution"
    and tgt: "get_resolution bnds target_shape = Inr target_resolution"
    and gen: "\<not> special_case recipes bnds target_resolution source_resolution"
  shows "read_window haversine calc warped_vrt src bnds target_shape recipes =
           Inl (AttributeError ''NoneType object has no attribute a'')
       \<or> (\<exists>name. read_window haversine calc warped_vrt src bnds target_shape recipes =
           Inl (KeyError name))"
proof -
  let ?res = "if fst target_resolution < fst source_resolution
                   \<or> snd target_resolution < snd source_resolution
                then Some target_resolution else None"
  obtain n k where r: "retry calc src (crs bnds) ?res 0 1 = Inr (Generic n k None None)"
    using retry_exhausted [of calc 0 1 src "crs bnds" ?res] oom by auto
  have p: "plan_transform haversine calc src bnds target_shape recipes =
      Inr (Generic n k None None)"
    using r by (simp add: plan_transform_def src tgt gen Let_def)
  show ?thesis
    by (cases "bounds bnds")
       (auto simp: read_window_def p resampling_lookup_def Let_def split: option.splits)
qed

text \<open>
  Claim C4. With a calculator that always runs out of memory and a source of three by
  three pixels, the loop ends after two failed attempts with scale factor 4 and no
  transform, and returns normally: the memory error was caught and is not raised again.
  \<^verbatim>\<open>read_window\<close> then fails with the attribute error of reading \<open>.a\<close> of
  \<^verbatim>\<open>None\<close>, as it does for every calculator that always runs out of memory
  (\<open>read_window_exhausted\<close>). The other two parts of the claim hold in general: the loop
  ends when a scaled dimension is no longer positive (\<open>retry_exhausted\<close>), and a
  transform is only ever derived from positive scaled dimensions
  (\<open>retry_positive_dimensions\<close>).
\<close>

theorem read_window_out_of_memory:
  "plan_transform no_haversine no_memory tiny_source fine_target (256, 256) no_recipe =
     Inr (Generic 2 4 None None)
   \<and> read_window no_haversine no_memory no_vrt tiny_source fine_target (256, 256) no_recipe =
     Inl (AttributeError ''NoneType object has no attribute a'')"
proof -
  have a: "get_resolution_in_meters no_haversine
      \<lparr>bounds = src_bounds tiny_source, crs = src_crs tiny_source\<rparr>
      (src_height tiny_source, src_width tiny_source) = Inr (1, 1)"
    by (simp add: get_resolution_in_meters_def get_resolution_def tiny_source_def
        WEB_MERCATOR_CRS_def from_bounds_def translation_def scale_def)
  have b: "get_resolution fine_target (256, 256) = Inr (1, 1)"
    by (simp add: get_resolution_def fine_target_def from_bounds_def translation_def scale_def)
  have c: "\<not> special_case no_recipe fine_target (1, 1) (1, 1)"
    by (simp add: special_case_def)
  have r: "retry no_memory tiny_source (crs fine_target) None 0 1 = Inr (Generic 2 4 None None)"
    by (simp add: retry.simps no_memory_def tiny_source_def)
  have p: "plan_transform no_haversine no_memory tiny_source fine_target (256, 256) no_recipe =
     Inr (Generic 2 4 None None)"
    by (simp add: plan_transform_def a b c r)
  have ci: "src_colorinterp tiny_source = [CI_gray]" by (simp add: tiny_source_def)
  have rs: "r_resample no_recipe = None" by (simp add: no_recipe_def)
  have bb: "bounds fine_target = (0, 0, 256, 256)" by (simp add: fine_target_def)
  have "read_window no_haversine no_memory no_vrt tiny_source fine_target (256, 256) no_recipe =
     Inl (AttributeError ''NoneType object has no attribute a'')"
    by (simp add: read_window_def p ci rs bb resampling_lookup_def Resampling_def Let_def)
  with p show ?thesis by simp
qed

subsection \<open>The windowed reader\<close>

lemma resolve_nodata_declared:
  "src_nodata src = Some v \<Longrightarrow> v \<noteq> 0 \<Longrightarrow> r_nodata recipes = None \<Longrightarrow>
   resolve_nodata src recipes = Some v"
  by (simp add: resolve_nodata_def)

lemma resolve_nodata_absent:
  "src_nodata src = None \<Longrightarrow> r_nodata recipes = None \<Longrightarrow>
   resolve_nodata src recipes = Some (nodata_of (src_dtype src))"
  by (simp add: resolve_nodata_def)

lemma resolve_nodata_zero:
  "src_nodata src = Some 0 \<Longrightarrow> r_nodata recipes = None \<Longrightarrow>
   resolve_nodata src recipes = Some (nodata_of (src_dtype src))"
  by (simp add: resolve_nodata_def)

text \<open>
  Claim C1. A source of 16-bit integers declares the nodata value 0. Zero is false in
  \<^verbatim>\<open>src.nodata or _nodata(...)\<close>, so the synthetic minimum -32768 replaces the declared
  value although a declaration is present; the view is opened with -32768 and the pixel
  that equals the declared value 0 comes back valid, the pixel -32768 masked.
\<close>

theorem read_window_zero_nodata:
  "resolve_nodata int16_source no_recipe = Some (- 32768)
   \<and> read_window no_haversine grid_calculator two_pixel_vrt int16_source strip_bounds (1, 2)
        no_recipe =
     Inr \<lparr>data = \<lparr>dtype = Int16, ma_data = \<lparr>shape = (1, 1, 2), elems = [[[0, - 32768]]]\<rparr>,
                   ma_mask = Some \<lparr>shape = (1, 1, 2), elems = [[[False, True]]]\<rparr>\<rparr>,
          pc_bounds = strip_bounds\<rparr>"
proof -
  have n: "resolve_nodata int16_source no_recipe = Some (- 32768)"
    by (simp add: resolve_nodata_def int16_source_def no_recipe_def nodata_of_def)
  have a: "get_resolution_in_meters no_haversine
      \<lparr>bounds = src_bounds int16_source, crs = src_crs int16_source\<rparr>
      (src_height int16_source, src_width int16_source) = Inr (1, 1)"
    by (simp add: get_resolution_in_meters_def get_resolution_def int16_source_def
        WEB_MERCATOR_CRS_def from_bounds_def translation_def scale_def)
  have b: "get_resolution strip_bounds (1, 2) = Inr (1, 1)"
    by (simp add: get_resolution_def strip_bounds_def from_bounds_def translation_def scale_def)
  have c: "\<not> special_case no_recipe strip_bounds (1, 1) (1, 1)"
    by (simp add: special_case_def)
  have r: "retry grid_calculator int16_source (crs strip_bounds) None 0 1 =
      Inr (Generic 0 1 (Some (Affine 1 0 0 0 (- 1) 1)) (Some (2, 1)))"
    by (simp add: retry.simps grid_calculator_def int16_source_def scale_def)
  have p: "plan_transform no_haversine grid_calculator int16_source strip_bounds (1, 2) no_recipe =
      Inr (Generic 0 1 (Some (Affine 1 0 0 0 (- 1) 1)) (Some (2, 1)))"
    by (simp add: plan_transform_def a b c r)
  have ci: "src_colorinterp int16_source = [CI_gray]" by (simp add: int16_source_def)
  have rs: "r_resample no_recipe = None" by (simp add: no_recipe_def)
  have bb: "bounds strip_bounds = (0, 0, 2, 1)" by (simp add: strip_bounds_def)
  have pm: "\<not> prefer_mask int16_source" by (simp add: prefer_mask_def int16_source_def)
  have dt: "src_dtype int16_source = Int16" by (simp add: int16_source_def)
  have "read_window no_haversine grid_calculator two_pixel_vrt int16_source strip_bounds (1, 2)
        no_recipe =
     Inr \<lparr>data = \<lparr>dtype = Int16, ma_data = \<lparr>shape = (1, 1, 2), elems = [[[0, - 32768]]]\<rparr>,
                   ma_mask = Some \<lparr>shape = (1, 1, 2), elems = [[[False, True]]]\<rparr>\<rparr>,
          pc_bounds = strip_bounds\<rparr>"
    by (simp add: read_window_def p ci rs bb pm n dt resampling_lookup_def Resampling_def Let_def
        two_pixel_vrt_def mask_values_def is_floating_def map3_def any3_def)
  with n show ?thesis by simp
qed

subsection \<open>The render pipeline\<close>

text \<open>
  Claim C6. Let the target resolution be computable (the shape has no zero entry), and
  let the transformation, when there is one, return from \<^verbatim>\<open>expand\<close>. Then \<^verbatim>\<open>render\<close>
  without a source list and without a catalog raises the exception "Either sources or a
  catalog must be provided." before any collaborator is called; \<^verbatim>\<open>render\<close> with an
  empty source list, or with a catalog that finds no source, raises \<^verbatim>\<open>NoDataAvailable\<close>,
  and the only collaborator calls made before that are \<^verbatim>\<open>expand\<close> and the catalog
  query: the compositor, the transform and post-process operations and the formatter
  are not called.
\<close>

theorem render_preconditions:
  assumes res: "get_resolution_in_meters haversine bnds sh = Inr resolution_m"
    and exp: "transformation = None \<and> bnds' = bnds \<and> before = []
        \<or> (\<exists>tr sh' offs. transformation = Some tr
               \<and> t_expand tr bnds sh = Inr (bnds', sh', offs) \<and> before = [Call_expand])"
  shows "(sources = None \<and> catalog = None \<longrightarrow>
           render haversine composite bnds sh target_crs format expand catalog sources
             transformation [] =
           ([], Inl (Exception ''Either sources or a catalog must be provided.'')))
      \<and> (sources = Some [] \<longrightarrow>
           render haversine composite bnds sh target_crs format expand catalog sources
             transformation [] =
           (before, Inl NoDataAvailable))
      \<and> (\<forall>get_sources. sources = None \<and> catalog = Some get_sources
             \<and> get_sources bnds' resolution_m = Inr [] \<longrightarrow>
           render haversine composite bnds sh target_crs format expand catalog sources
             transformation [] =
           (before @ [Call_get_sources], Inl NoDataAvailable))"
  using exp
  by (auto simp: render_def bind_def lift_def raise_def ret_def external_def res
      split: prod.splits)

theorem render_preconditions_witness:
  "get_resolution_in_meters no_haversine fine_target (256, 256) = Inr (1, 1)
   \<and> t_expand margin_transformation fine_target (256, 256) =
        Inr (fine_target, (256, 256), (0, 0, 0, 0))
   \<and> render no_haversine no_compositor fine_target (256, 256) WEB_MERCATOR_CRS no_formatter False
        None None None [] =
      ([], Inl (Exception ''Either sources or a catalog must be provided.''))
   \<and> render no_haversine no_compositor fine_target (256, 256) WEB_MERCATOR_CRS no_formatter False
        None (Some []) (Some margin_transformation) [] =
      ([Call_expand], Inl NoDataAvailable)
   \<and> empty_catalog fine_target (1, 1) = Inr []
   \<and> render no_haversine no_compositor fine_target (256, 256) WEB_MERCATOR_CRS no_formatter False
        (Some empty_catalog) None None [] =
      ([Call_get_sources], Inl NoDataAvailable)"
proof -
  have r: "get_resolution_in_meters no_haversine fine_target (256, 256) = Inr (1, 1)"
    by (simp add: get_resolution_in_meters_def get_resolution_def fine_target_def
        WEB_MERCATOR_CRS_def from_bounds_def translation_def scale_def)
  have e: "t_expand margin_transformation fine_target (256, 256) =
        Inr (fine_target, (256, 256), (0, 0, 0, 0))"
    by (simp add: margin_transformation_def)
  have c: "empty_catalog fine_target (1, 1) = Inr []"
    by (simp add: empty_catalog_def)
  have none: "None = None \<and> fine_target = fine_target \<and> [] = ([]::call list)
      \<or> (\<exists>tr sh' offs. (None :: real option PixelCollection Transformation option) = Some tr
             \<and> t_expand tr fine_target (256, 256) = Inr (fine_target, sh', offs)
             \<and> [] = [Call_expand])"
    by simp
  have some: "Some margin_transformation = None \<and> fine_target = fine_target \<and> [Call_expand] = []
      \<or> (\<exists>tr sh' offs. Some margin_transformation = Some tr
             \<and> t_expand tr fine_target (256, 256) = Inr (fine_target, sh', offs)
             \<and> [Call_expand] = [Call_expand])"
    using e by simp
  show ?thesis
    using r e c
      render_preconditions [OF r none, where sources = None and catalog = None
        and composite = no_compositor
        and target_crs = WEB_MERCATOR_CRS and format = no_formatter and expand = False]
      render_preconditions [OF r some, where sources = "Some []" and catalog = None
        and composite = no_compositor
        and target_crs = WEB_MERCATOR_CRS and format = no_formatter and expand = False]
      render_preconditions [OF r none, where sources = None and catalog = "Some empty_catalog"
        and composite = no_compositor
        and target_crs = WEB_MERCATOR_CRS and format = no_formatter and expand = False]
    by simp
qed

end
